theory Spec2Isabelle
  imports
    Main
    "HOL-Library.Char_ord"
    "HOL-Library.List_Lexorder"
    "HOL-Library.Multiset"
    "HOL-Library.AList"
begin

section \<open>Python values used by the Gerrit tools\<close>

text \<open>
  The tools of \<^verbatim>\<open>servers/gerrit_service.py\<close> (repeated in
  \<^verbatim>\<open>providers/gerrit_provider.py\<close>) and the request primitive of
  \<^verbatim>\<open>data/gerrit_api.py\<close> work on Python strings, on dictionaries decoded from JSON and
  on exceptions. Strings are byte strings in UTF-8 (\<^typ>\<open>string\<close>), a dictionary is an
  association list in insertion order, and an exception is a value carrying its message.
\<close>

datatype py_exception =
    ValueError string
  | Exception string
  | AttributeError string
  | IndexError string
  | KeyError string

text \<open>\<^verbatim>\<open>str(e)\<close>: the message, and for a \<^verbatim>\<open>KeyError\<close> the key between single quotes.\<close>

fun exn_str :: "py_exception \<Rightarrow> string" where
  "exn_str (ValueError m) = m"
| "exn_str (Exception m) = m"
| "exn_str (AttributeError m) = m"
| "exn_str (IndexError m) = m"
| "exn_str (KeyError k) = [CHR 0x27] @ k @ [CHR 0x27]"

text \<open>Truthiness of a string and of an optional string (\<^verbatim>\<open>None\<close> and \<^verbatim>\<open>""\<close> are falsy).\<close>

definition truthy :: "string option \<Rightarrow> bool" where
  "truthy v = (case v of None \<Rightarrow> False | Some s \<Rightarrow> s \<noteq> [])"

text \<open>\<^verbatim>\<open>str(n)\<close> of an integer: decimal digits, with a minus sign when negative.\<close>

definition digit_char :: "nat \<Rightarrow> char" where
  "digit_char d = char_of (48 + d)"

function str_nat :: "nat \<Rightarrow> string" where
  "str_nat n = (if n < 10 then [digit_char n] else str_nat (n div 10) @ [digit_char (n mod 10)])"
  by pat_completeness auto
termination
  by (relation "measure (\<lambda>n. n)") auto

declare str_nat.simps [simp del]

definition str_int :: "int \<Rightarrow> string" where
  "str_int i = (if i < 0 then CHR ''-'' # str_nat (nat (- i)) else str_nat (nat i))"

text \<open>\<^verbatim>\<open>str(d.get(key))\<close> for an integer field that may be missing: \<^verbatim>\<open>str(None)\<close> is
  \<^verbatim>\<open>'None'\<close>.\<close>

definition str_opt_int :: "int option \<Rightarrow> string" where
  "str_opt_int v = (case v of None \<Rightarrow> ''None'' | Some i \<Rightarrow> str_int i)"

text \<open>An optional string inside an f-string.\<close>

definition str_opt :: "string option \<Rightarrow> string" where
  "str_opt v = (case v of None \<Rightarrow> ''None'' | Some s \<Rightarrow> s)"

text \<open>\<^verbatim>\<open>sep.join(xs)\<close>.\<close>

fun join :: "string \<Rightarrow> string list \<Rightarrow> string" where
  "join sep [] = []"
| "join sep [x] = x"
| "join sep (x # y # ys) = x @ sep @ join sep (y # ys)"

text \<open>\<^verbatim>\<open>s.startswith(p)\<close>.\<close>

definition startswith :: "string \<Rightarrow> string \<Rightarrow> bool" where
  "startswith s p = (take (length p) s = p)"

text \<open>\<^verbatim>\<open>s.strip(c)\<close> for a single character \<^verbatim>\<open>c\<close>.\<close>

definition strip :: "char \<Rightarrow> string \<Rightarrow> string" where
  "strip c s = rev (dropWhile (\<lambda>x. x = c) (rev (dropWhile (\<lambda>x. x = c) s)))"

text \<open>\<^verbatim>\<open>s.split(c)\<close> for a single character \<^verbatim>\<open>c\<close>: the result is never empty
  (\<^verbatim>\<open>''.split('/')\<close> is \<^verbatim>\<open>['']\<close>).\<close>

fun split :: "char \<Rightarrow> string \<Rightarrow> string list" where
  "split c [] = [[]]"
| "split c (x # xs) =
     (if x = c then [] # split c xs
      else (case split c xs of [] \<Rightarrow> [[x]] | w # ws \<Rightarrow> (x # w) # ws))"

text \<open>\<^verbatim>\<open>xs.index(v)\<close> for \<^verbatim>\<open>v\<close> in \<^verbatim>\<open>xs\<close>: the position of the first occurrence.\<close>

fun list_index :: "'a list \<Rightarrow> 'a \<Rightarrow> nat" where
  "list_index [] v = 0"
| "list_index (x # xs) v = (if x = v then 0 else Suc (list_index xs v))"

text \<open>\<^verbatim>\<open>urllib.parse.quote(s, safe='')\<close>: every byte outside letters, digits and
  \<^verbatim>\<open>_.-~\<close> becomes \<^verbatim>\<open>%XX\<close> with upper-case hexadecimal digits.\<close>

definition hex_digit :: "nat \<Rightarrow> char" where
  "hex_digit d = (if d < 10 then char_of (48 + d) else char_of (55 + d))"

definition always_safe :: "char \<Rightarrow> bool" where
  "always_safe c =
     (let n = (of_char c :: nat) in
        (65 \<le> n \<and> n \<le> 90) \<or> (97 \<le> n \<and> n \<le> 122) \<or> (48 \<le> n \<and> n \<le> 57)
        \<or> c = CHR ''_'' \<or> c = CHR ''.'' \<or> c = CHR ''-'' \<or> c = CHR ''~'')"

definition quote_char :: "char \<Rightarrow> string" where
  "quote_char c =
     (if always_safe c then [c]
      else [CHR ''%'', hex_digit ((of_char c :: nat) div 16), hex_digit ((of_char c :: nat) mod 16)])"

definition quote :: "string \<Rightarrow> string" where
  "quote s = concat (map quote_char s)"

section \<open>The data model: change detail, revisions, files\<close>

text \<open>
  The JSON documents of the backend, typed as the tools read them. A field read with
  \<^verbatim>\<open>.get\<close> is optional: \<^term>\<open>None\<close> stands for a missing key. A dictionary is a list of
  key/value pairs in iteration order; a decoded JSON object has pairwise distinct keys.
\<close>

record file_info =
  fi_status :: "string option"
  fi_lines_inserted :: "int option"
  fi_lines_deleted :: "int option"
  fi_size_delta :: "int option"

record revision_info =
  ri_number :: "int option"
  ri_files :: "(string \<times> file_info) list"

record change_info =
  ci_project :: "string option"
  ci_current_revision :: "string option"
  ci_revisions :: "(string \<times> revision_info) list"

text \<open>\<^verbatim>\<open>key in d\<close> and \<^verbatim>\<open>d[key]\<close> on a dictionary with string keys.\<close>

definition has_key :: "(string \<times> 'v) list \<Rightarrow> string \<Rightarrow> bool" where
  "has_key d k = (k \<in> set (map fst d))"

definition getitem :: "(string \<times> 'v) list \<Rightarrow> string \<Rightarrow> py_exception + 'v" where
  "getitem d k = (case map_of d k of None \<Rightarrow> Inl (KeyError k) | Some v \<Rightarrow> Inr v)"

text \<open>\<^verbatim>\<open>xs[i]\<close> on a list: a negative index counts from the end, an index out of range
  raises.\<close>

definition list_getitem :: "'a list \<Rightarrow> int \<Rightarrow> py_exception + 'a" where
  "list_getitem xs i =
     (if 0 \<le> i \<and> i < int (length xs) then Inr (xs ! nat i)
      else if i < 0 \<and> - int (length xs) \<le> i then Inr (xs ! nat (int (length xs) + i))
      else Inl (IndexError ''list index out of range''))"

text \<open>\<^verbatim>\<open>xs[1:k]\<close> for \<^verbatim>\<open>k\<close> not negative.\<close>

definition slice_1 :: "'a list \<Rightarrow> int \<Rightarrow> 'a list" where
  "slice_1 xs k = drop 1 (take (nat k) xs)"

section \<open>Revision resolution\<close>

text \<open>
  Lines 103 to 114 of \<^verbatim>\<open>fetch_gerrit_change\<close>: the scan of \<^verbatim>\<open>revisions.items()\<close> stops
  at the first entry whose \<^verbatim>\<open>str(rev_info.get("_number"))\<close> equals
  \<^verbatim>\<open>str(patchset_number)\<close>.
\<close>

fun scan_revisions :: "string \<Rightarrow> (string \<times> revision_info) list \<Rightarrow> string option" where
  "scan_revisions pn [] = None"
| "scan_revisions pn ((rid, rev_info) # rest) =
     (if str_opt_int (ri_number rev_info) = pn then Some rid else scan_revisions pn rest)"

text \<open>\<^verbatim>\<open>sorted([str(info.get("_number")) for info in revisions.values()])\<close>.\<close>

definition available_patchsets :: "(string \<times> revision_info) list \<Rightarrow> string list" where
  "available_patchsets revisions = sort (map (\<lambda>(rid, info). str_opt_int (ri_number info)) revisions)"

definition patchset_not_found :: "string \<Rightarrow> string list \<Rightarrow> py_exception" where
  "patchset_not_found pn available =
     ValueError (''Patchset '' @ pn @ '' not found. Available patchsets: '' @ join '', '' available)"

definition revision_info_not_found :: py_exception where
  "revision_info_not_found = ValueError ''Revision information not found''"

text \<open>The choice of \<^verbatim>\<open>target_revision\<close> (lines 103 to 114); \<^verbatim>\<open>patchset_number\<close> is
  \<^term>\<open>None\<close> when the argument is left out. Both \<^verbatim>\<open>if patchset_number\<close> and
  \<^verbatim>\<open>if not target_revision\<close> test truthiness.\<close>

definition target_revision_of :: "change_info \<Rightarrow> string option \<Rightarrow> py_exception + string option" where
  "target_revision_of change patchset_number =
     (let current_revision = ci_current_revision change;
          revisions = ci_revisions change
      in case patchset_number of
           None \<Rightarrow> Inr current_revision
         | Some pn \<Rightarrow>
             (if pn = [] then Inr current_revision
              else (let target_revision = scan_revisions pn revisions
                    in if \<not> truthy target_revision
                       then Inl (patchset_not_found pn (available_patchsets revisions))
                       else Inr target_revision)))"

text \<open>The whole resolution (lines 101 to 117): the chosen revision must be a non-empty key
  of \<^verbatim>\<open>revisions\<close>.\<close>

definition resolve_revision :: "change_info \<Rightarrow> string option \<Rightarrow> py_exception + string" where
  "resolve_revision change patchset_number =
     (case target_revision_of change patchset_number of
        Inl e \<Rightarrow> Inl e
      | Inr None \<Rightarrow> Inl revision_info_not_found
      | Inr (Some target_revision) \<Rightarrow>
          (if target_revision = [] \<or> \<not> has_key (ci_revisions change) target_revision
           then Inl revision_info_not_found
           else Inr target_revision))"

section \<open>The backend seen through the request primitive\<close>

text \<open>
  The tools reach the backend only through \<^verbatim>\<open>make_gerrit_rest_request(ctx, endpoint)\<close>.
  Its result is read at three types, one per kind of endpoint: a change detail (where
  \<^term>\<open>None\<close> is a falsy document such as \<^verbatim>\<open>{}\<close>), a file list, and a diff, which the
  tools pass on without looking inside. A failed request is the exception it raises.
\<close>

record 'd backend =
  request_change :: "string \<Rightarrow> py_exception + change_info option"
  request_files :: "string \<Rightarrow> py_exception + (string \<times> file_info) list"
  request_diff :: "string \<Rightarrow> py_exception + 'd"

section \<open>fetch\_gerrit\_change\<close>

record 'd file_data =
  fd_path :: string
  fd_status :: string
  fd_lines_inserted :: int
  fd_lines_deleted :: int
  fd_size_delta :: int
  fd_diff :: 'd

record 'd change_result =
  cr_change_info :: change_info
  cr_project :: string
  cr_revision :: string
  cr_patchset :: revision_info
  cr_files :: "'d file_data list"

definition commit_msg :: string where
  "commit_msg = ''/COMMIT_MSG''"

definition change_endpoint :: "string \<Rightarrow> string" where
  "change_endpoint change_id =
     ''a/changes/'' @ change_id @
     ''/detail?o=CURRENT_REVISION&o=CURRENT_COMMIT&o=MESSAGES&o=DETAILED_LABELS&o=DETAILED_ACCOUNTS&o=ALL_REVISIONS&o=ALL_COMMITS&o=ALL_FILES&o=COMMIT_FOOTERS''"

definition diff_endpoint :: "string \<Rightarrow> string \<Rightarrow> string \<Rightarrow> string" where
  "diff_endpoint change_id target_revision file_path =
     ''a/changes/'' @ change_id @ ''/revisions/'' @ target_revision @ ''/files/'' @ quote file_path @ ''/diff''"

definition get_or :: "'a option \<Rightarrow> 'a \<Rightarrow> 'a" where
  "get_or v d = (case v of None \<Rightarrow> d | Some x \<Rightarrow> x)"

text \<open>The loop over \<^verbatim>\<open>revision_info.get("files", {}).items()\<close> (lines 119 to 134):
  \<^verbatim>\<open>processed_files\<close> is the accumulator, a failed diff request ends the loop.\<close>

fun process_files ::
  "'d backend \<Rightarrow> string \<Rightarrow> string \<Rightarrow> 'd file_data list \<Rightarrow> (string \<times> file_info) list
   \<Rightarrow> py_exception + 'd file_data list" where
  "process_files be change_id target_revision processed_files [] = Inr processed_files"
| "process_files be change_id target_revision processed_files ((file_path, file_info) # rest) =
     (if file_path = commit_msg
      then process_files be change_id target_revision processed_files rest
      else (case request_diff be (diff_endpoint change_id target_revision file_path) of
              Inl e \<Rightarrow> Inl e
            | Inr diff_info \<Rightarrow>
                process_files be change_id target_revision
                  (processed_files @
                     [\<lparr> fd_path = file_path,
                        fd_status = get_or (fi_status file_info) ''MODIFIED'',
                        fd_lines_inserted = get_or (fi_lines_inserted file_info) 0,
                        fd_lines_deleted = get_or (fi_lines_deleted file_info) 0,
                        fd_size_delta = get_or (fi_size_delta file_info) 0,
                        fd_diff = diff_info \<rparr>])
                  rest))"

definition fetch_gerrit_change ::
  "'d backend \<Rightarrow> string \<Rightarrow> string option \<Rightarrow> py_exception + 'd change_result" where
  "fetch_gerrit_change be change_id patchset_number =
     (case request_change be (change_endpoint change_id) of
        Inl e \<Rightarrow> Inl e
      | Inr None \<Rightarrow> Inl (ValueError (''Change '' @ change_id @ '' not found''))
      | Inr (Some change) \<Rightarrow>
          (if \<not> truthy (ci_project change)
           then Inl (ValueError ''Project information not found in change'')
           else (case resolve_revision change patchset_number of
                   Inl e \<Rightarrow> Inl e
                 | Inr target_revision \<Rightarrow>
                     (case getitem (ci_revisions change) target_revision of
                        Inl e \<Rightarrow> Inl e
                      | Inr revision_info \<Rightarrow>
                          (case process_files be change_id target_revision []
                                  (ri_files revision_info) of
                             Inl e \<Rightarrow> Inl e
                           | Inr processed_files \<Rightarrow>
                               Inr \<lparr> cr_change_info = change,
                                     cr_project = get_or (ci_project change) [],
                                     cr_revision = target_revision,
                                     cr_patchset = revision_info,
                                     cr_files = processed_files \<rparr>)))))"

section \<open>fetch\_patchset\_diff\<close>

record 'd changed_file =
  cf_status :: string
  cf_lines_inserted :: int
  cf_lines_deleted :: int
  cf_size_delta :: int
  cf_diff :: 'd

record 'd diff_result =
  dr_base_revision :: string
  dr_target_revision :: string
  dr_base_patchset :: string
  dr_target_patchset :: string
  dr_files :: "(string \<times> 'd changed_file) list"

definition revisions_endpoint :: "string \<Rightarrow> string" where
  "revisions_endpoint change_id = ''a/changes/'' @ change_id @ ''/detail?o=ALL_REVISIONS&o=ALL_FILES''"

text \<open>The scan of lines 175 to 179 has no \<^verbatim>\<open>break\<close>: the last matching entry wins, for
  the base and for the target.\<close>

fun scan_base_target ::
  "string \<Rightarrow> string \<Rightarrow> string option \<times> string option \<Rightarrow> (string \<times> revision_info) list
   \<Rightarrow> string option \<times> string option" where
  "scan_base_target base_patchset target_patchset (base_revision, target_revision) [] =
     (base_revision, target_revision)"
| "scan_base_target base_patchset target_patchset (base_revision, target_revision)
     ((rid, rev_info) # rest) =
     scan_base_target base_patchset target_patchset
       (if str_opt_int (ri_number rev_info) = base_patchset then Some rid else base_revision,
        if str_opt_int (ri_number rev_info) = target_patchset then Some rid else target_revision)
       rest"

definition patchsets_not_found :: "string list \<Rightarrow> py_exception" where
  "patchsets_not_found available =
     ValueError (''Patchset(s) not found. Available patchsets: '' @ join '', '' available)"

definition files_endpoint :: "string \<Rightarrow> string \<Rightarrow> string \<Rightarrow> string" where
  "files_endpoint change_id target_revision base_revision =
     ''a/changes/'' @ change_id @ ''/revisions/'' @ target_revision @ ''/files''
     @ (if base_revision \<noteq> [] then ''?base='' @ base_revision else [])"

definition file_diff_endpoint :: "string \<Rightarrow> string \<Rightarrow> string \<Rightarrow> string \<Rightarrow> string" where
  "file_diff_endpoint change_id target_revision base_revision fpath =
     ''a/changes/'' @ change_id @ ''/revisions/'' @ target_revision @ ''/files/'' @ quote fpath @ ''/diff''
     @ (if base_revision \<noteq> [] then ''?base='' @ base_revision else [])"

text \<open>The loop over \<^verbatim>\<open>files_diff.items()\<close> (lines 188 to 204): \<^verbatim>\<open>changed_files\<close> is
  the accumulator, and \<^verbatim>\<open>changed_files[fpath] = ...\<close> replaces the value of a key already there
  or appends a new key.\<close>

fun changed_files_loop ::
  "'d backend \<Rightarrow> string \<Rightarrow> string \<Rightarrow> string \<Rightarrow> (string \<times> 'd changed_file) list
   \<Rightarrow> (string \<times> file_info) list \<Rightarrow> py_exception + (string \<times> 'd changed_file) list" where
  "changed_files_loop be change_id target_revision base_revision changed_files [] = Inr changed_files"
| "changed_files_loop be change_id target_revision base_revision changed_files
     ((fpath, file_info) # rest) =
     (if fpath = commit_msg
      then changed_files_loop be change_id target_revision base_revision changed_files rest
      else if fi_status file_info \<noteq> Some ''SAME''
      then (case request_diff be (file_diff_endpoint change_id target_revision base_revision fpath) of
              Inl e \<Rightarrow> Inl e
            | Inr diff_info \<Rightarrow>
                changed_files_loop be change_id target_revision base_revision
                  (AList.update fpath
                     \<lparr> cf_status = get_or (fi_status file_info) ''MODIFIED'',
                       cf_lines_inserted = get_or (fi_lines_inserted file_info) 0,
                       cf_lines_deleted = get_or (fi_lines_deleted file_info) 0,
                       cf_size_delta = get_or (fi_size_delta file_info) 0,
                       cf_diff = diff_info \<rparr>
                     changed_files)
                  rest)
      else changed_files_loop be change_id target_revision base_revision changed_files rest)"

text \<open>\<^verbatim>\<open>file_path\<close> is the optional fifth argument; the source writes it to the log and
  reads it nowhere else.\<close>

definition fetch_patchset_diff ::
  "'d backend \<Rightarrow> string \<Rightarrow> string \<Rightarrow> string \<Rightarrow> string option \<Rightarrow> py_exception + 'd diff_result" where
  "fetch_patchset_diff be change_id base_patchset target_patchset file_path =
     (case request_change be (revisions_endpoint change_id) of
        Inl e \<Rightarrow> Inl e
      | Inr None \<Rightarrow> Inl (ValueError (''Change '' @ change_id @ '' not found''))
      | Inr (Some change) \<Rightarrow>
          (let revisions = ci_revisions change;
               (base_revision, target_revision) =
                 scan_base_target base_patchset target_patchset (None, None) revisions
           in if \<not> truthy base_revision \<or> \<not> truthy target_revision
              then Inl (patchsets_not_found (available_patchsets revisions))
              else (let base_rev = get_or base_revision [];
                        target_rev = get_or target_revision []
                    in case request_files be (files_endpoint change_id target_rev base_rev) of
                         Inl e \<Rightarrow> Inl e
                       | Inr files_diff \<Rightarrow>
                           (case changed_files_loop be change_id target_rev base_rev [] files_diff of
                              Inl e \<Rightarrow> Inl e
                            | Inr changed_files \<Rightarrow>
                                Inr \<lparr> dr_base_revision = base_rev,
                                      dr_target_revision = target_rev,
                                      dr_base_patchset = base_patchset,
                                      dr_target_patchset = target_patchset,
                                      dr_files = changed_files \<rparr>))))"

section \<open>get\_repository\_path\_from\_change\<close>

text \<open>
  \<^verbatim>\<open>urllib.parse.urlparse\<close> belongs to the standard library: the tool takes it as a
  parameter and reads the scheme, the host name (\<^verbatim>\<open>None\<close> when the URL has none) and
  the path of its result.
\<close>

record parsed_url =
  url_scheme :: string
  url_hostname :: "string option"
  url_path :: string

text \<open>Lines 240 to 248: the project, either cut out of the path or looked up through
  \<^verbatim>\<open>fetch_gerrit_change(ctx, change_id)\<close>.\<close>

definition project_of_path :: "'d backend \<Rightarrow> string list \<Rightarrow> py_exception + string" where
  "project_of_path be path_parts =
     (let plus_index = (if ''+'' \<in> set path_parts then int (list_index path_parts ''+'') else - 1)
      in if plus_index > 1
         then (let project = join ''/'' (slice_1 path_parts plus_index)
               in case list_getitem path_parts (plus_index + 1) of
                    Inl e \<Rightarrow> Inl e
                  | Inr change_id \<Rightarrow> Inr project)
         else (case list_getitem path_parts (- 1) of
                 Inl e \<Rightarrow> Inl e
               | Inr change_id \<Rightarrow>
                   (case fetch_gerrit_change be change_id None of
                      Inl e \<Rightarrow> Inl e
                    | Inr change_info \<Rightarrow> Inr (cr_project change_info))))"

definition user_prefix_of :: "string \<Rightarrow> string" where
  "user_prefix_of user = (if user \<noteq> [] then user @ ''@'' else [])"

text \<open>Lines 237 to 263, the body of the \<^verbatim>\<open>try\<close>. \<^verbatim>\<open>session_user\<close> is
  \<^verbatim>\<open>getattr(ctx, 'user', None)\<close> and \<^verbatim>\<open>env_user\<close> the environment variable
  \<^verbatim>\<open>GERRIT_USER\<close>.\<close>

definition clone_url_body ::
  "(string \<Rightarrow> py_exception + parsed_url) \<Rightarrow> 'd backend \<Rightarrow> string option \<Rightarrow> string option
   \<Rightarrow> string \<Rightarrow> string \<Rightarrow> py_exception + string" where
  "clone_url_body urlparse be session_user env_user change_url clone_url_type =
     (case urlparse change_url of
        Inl e \<Rightarrow> Inl e
      | Inr parsed \<Rightarrow>
          (let protocol = url_scheme parsed;
               host = url_hostname parsed;
               path_parts = split CHR ''/'' (strip CHR ''/'' (url_path parsed))
           in case project_of_path be path_parts of
                Inl e \<Rightarrow> Inl e
              | Inr project \<Rightarrow>
                  (let user = (if truthy session_user then get_or session_user [] else get_or env_user [])
                   in if clone_url_type = ''ssh''
                      then Inr (''ssh://'' @ user_prefix_of user @ str_opt host @ '':29418/'' @ project @ ''.git'')
                      else Inr (protocol @ ''://'' @ user_prefix_of user @ str_opt host @ ''/a/'' @ project @ ''.git''))))"

text \<open>The \<^verbatim>\<open>except Exception\<close> of lines 264 to 266 turns every failure into a
  \<^verbatim>\<open>ValueError\<close> that quotes the cause.\<close>

definition get_repository_path_from_change ::
  "(string \<Rightarrow> py_exception + parsed_url) \<Rightarrow> 'd backend \<Rightarrow> string option \<Rightarrow> string option
   \<Rightarrow> string \<Rightarrow> string \<Rightarrow> py_exception + string" where
  "get_repository_path_from_change urlparse be session_user env_user change_url clone_url_type =
     (case clone_url_body urlparse be session_user env_user change_url clone_url_type of
        Inl e \<Rightarrow> Inl (ValueError (''Failed to extract repository path: '' @ exn_str e))
      | Inr full_clone_url \<Rightarrow> Inr full_clone_url)"

section \<open>The request primitive\<close>

text \<open>
  \<^verbatim>\<open>make_gerrit_rest_request\<close> of \<^verbatim>\<open>data/gerrit_api.py\<close>. The HTTP library and the JSON
  decoder are parameters: \<^verbatim>\<open>http_get url user password\<close> is either the message of a
  \<^verbatim>\<open>RequestException\<close> raised without a response, or the response;
  \<^verbatim>\<open>json_loads\<close> is either the message of a \<^verbatim>\<open>JSONDecodeError\<close> or the decoded
  document.
\<close>

record gerrit_context =
  ctx_host :: string
  ctx_user :: string
  ctx_http_password :: "string option"

record http_response =
  resp_status_code :: nat
  resp_reason :: string
  resp_url :: string
  resp_text :: string

text \<open>\<^verbatim>\<open>response.raise_for_status()\<close>: the message of the \<^verbatim>\<open>HTTPError\<close> it raises for
  a status from 400 to 599, and \<^term>\<open>None\<close> when it returns.\<close>

definition raise_for_status :: "http_response \<Rightarrow> string option" where
  "raise_for_status r =
     (let c = resp_status_code r
      in if 400 \<le> c \<and> c < 500
         then Some (str_nat c @ '' Client Error: '' @ resp_reason r @ '' for url: '' @ resp_url r)
         else if 500 \<le> c \<and> c < 600
         then Some (str_nat c @ '' Server Error: '' @ resp_reason r @ '' for url: '' @ resp_url r)
         else None)"

definition magic_prefix :: string where
  "magic_prefix = [CHR '')'', CHR '']'', CHR ''}'', CHR 0x27]"

definition authentication_failed :: py_exception where
  "authentication_failed =
     Exception ''Authentication failed. Please check your Gerrit HTTP password in your account settings.''"

definition request_failed :: "string \<Rightarrow> py_exception" where
  "request_failed m = Exception (''Failed to make Gerrit REST API request: '' @ m)"

definition parse_failed :: "string \<Rightarrow> py_exception" where
  "parse_failed m = Exception (''Failed to parse Gerrit response as JSON: '' @ m)"

text \<open>A \<^verbatim>\<open>RequestException\<close> raised without a response has \<^verbatim>\<open>e.response = None\<close>, and the
  handler of lines 62 to 66 reads \<^verbatim>\<open>e.response.status_code\<close>.\<close>

definition no_response_attribute :: py_exception where
  "no_response_attribute =
     AttributeError ([CHR 0x27] @ ''NoneType'' @ [CHR 0x27] @ '' object has no attribute ''
                     @ [CHR 0x27] @ ''status_code'' @ [CHR 0x27])"

definition request_url :: "gerrit_context \<Rightarrow> string \<Rightarrow> string" where
  "request_url gerrit_ctx endpoint =
     (let endpoint = (if \<not> startswith endpoint ''a/'' then ''a/'' @ endpoint else endpoint)
      in if startswith (ctx_host gerrit_ctx) ''http://'' \<or> startswith (ctx_host gerrit_ctx) ''https://''
         then ctx_host gerrit_ctx @ ''/'' @ endpoint
         else ''https://'' @ ctx_host gerrit_ctx @ ''/'' @ endpoint)"

text \<open>Lines 50 to 60: the body, without the prefix when it starts with it, is decoded.\<close>

definition parse_content :: "(string \<Rightarrow> string + 'j) \<Rightarrow> string \<Rightarrow> py_exception + 'j" where
  "parse_content json_loads content =
     (let content = (if startswith content magic_prefix then drop 4 content else content)
      in case json_loads content of
           Inl m \<Rightarrow> Inl (parse_failed m)
         | Inr result \<Rightarrow> Inr result)"

definition make_gerrit_rest_request ::
  "(string \<Rightarrow> string \<Rightarrow> string \<Rightarrow> string + http_response) \<Rightarrow> (string \<Rightarrow> string + 'j)
   \<Rightarrow> gerrit_context \<Rightarrow> string \<Rightarrow> py_exception + 'j" where
  "make_gerrit_rest_request http_get json_loads gerrit_ctx endpoint =
     (if \<not> truthy (ctx_http_password gerrit_ctx)
      then Inl (ValueError ''HTTP password not set. Please set GERRIT_HTTP_PASSWORD in your environment.'')
      else (case http_get (request_url gerrit_ctx endpoint) (ctx_user gerrit_ctx)
                   (get_or (ctx_http_password gerrit_ctx) []) of
              Inl m \<Rightarrow> Inl no_response_attribute
            | Inr response \<Rightarrow>
                (if resp_status_code response = 401 then Inl authentication_failed
                 else (case raise_for_status response of
                         Some m \<Rightarrow> Inl (request_failed m)
                       | None \<Rightarrow> parse_content json_loads (resp_text response)))))"

text \<open>The transport that answers every request with the response \<open>r\<close>.\<close>

definition http_get_const :: "http_response \<Rightarrow> string \<Rightarrow> string \<Rightarrow> string \<Rightarrow> string + http_response" where
  "http_get_const r url user password = Inr r"

section \<open>Example data\<close>

text \<open>Change 500 with two revisions, \<^verbatim>\<open>r1\<close> (patchset 1) and \<^verbatim>\<open>r2\<close> (patchset 2, the
  current one), and a file list that holds the commit-message entry, an added file, an
  unchanged file and a file without a status.\<close>

definition example_files :: "(string \<times> file_info) list" where
  "example_files =
     [(''/COMMIT_MSG'', \<lparr> fi_status = Some ''ADDED'', fi_lines_inserted = Some 7,
                          fi_lines_deleted = None, fi_size_delta = Some 120 \<rparr>),
      (''src/a.py'', \<lparr> fi_status = Some ''ADDED'', fi_lines_inserted = Some 3,
                       fi_lines_deleted = None, fi_size_delta = Some 40 \<rparr>),
      (''b.py'', \<lparr> fi_status = Some ''SAME'', fi_lines_inserted = None,
                   fi_lines_deleted = None, fi_size_delta = Some 0 \<rparr>),
      (''c.py'', \<lparr> fi_status = None, fi_lines_inserted = Some 1,
                   fi_lines_deleted = Some 2, fi_size_delta = Some (- 5) \<rparr>)]"

definition example_change :: change_info where
  "example_change =
     \<lparr> ci_project = Some ''proj'',
       ci_current_revision = Some ''r2'',
       ci_revisions =
         [(''r1'', \<lparr> ri_number = Some 1, ri_files = example_files \<rparr>),
          (''r2'', \<lparr> ri_number = Some 2, ri_files = example_files \<rparr>)] \<rparr>"

text \<open>A backend that knows change 500 only and answers a diff request with its endpoint.\<close>

definition example_request_change :: "string \<Rightarrow> py_exception + change_info option" where
  "example_request_change endpoint =
     (if endpoint = change_endpoint ''500'' \<or> endpoint = revisions_endpoint ''500''
      then Inr (Some example_change)
      else Inl (request_failed ''404 Client Error: Not Found for url: '' ))"

definition example_request_files :: "string \<Rightarrow> py_exception + (string \<times> file_info) list" where
  "example_request_files endpoint =
     (if endpoint = files_endpoint ''500'' ''r2'' ''r1''
      then Inr example_files
      else Inl (request_failed ''404 Client Error: Not Found for url: ''))"

definition example_backend :: "string backend" where
  "example_backend =
     \<lparr> request_change = example_request_change,
       request_files = example_request_files,
       request_diff = (\<lambda>endpoint. Inr endpoint) \<rparr>"

text \<open>Change 777 of project \<^verbatim>\<open>proj\<close>, with one revision and no file, and a backend that
  knows this change only.\<close>

definition change_777 :: change_info where
  "change_777 =
     \<lparr> ci_project = Some ''proj'',
       ci_current_revision = Some ''r1'',
       ci_revisions = [(''r1'', \<lparr> ri_number = Some 1, ri_files = [] \<rparr>)] \<rparr>"

definition backend_777 :: "string backend" where
  "backend_777 =
     \<lparr> request_change =
         (\<lambda>endpoint. if endpoint = change_endpoint ''777'' then Inr (Some change_777)
                     else Inl (request_failed ''404 Client Error: Not Found for url: '')),
       request_files = (\<lambda>endpoint. Inr []),
       request_diff = (\<lambda>endpoint. Inr endpoint) \<rparr>"

definition change_result_777 :: "string change_result" where
  "change_result_777 =
     \<lparr> cr_change_info = change_777,
       cr_project = ''proj'',
       cr_revision = ''r1'',
       cr_patchset = \<lparr> ri_number = Some 1, ri_files = [] \<rparr>,
       cr_files = [] \<rparr>"

text \<open>Two revisions with the same patchset number, and a current revision that is not a
  key of the revisions.\<close>

definition twin_change :: change_info where
  "twin_change =
     \<lparr> ci_project = Some ''proj'',
       ci_current_revision = Some ''r9'',
       ci_revisions =
         [(''r1'', \<lparr> ri_number = Some 1, ri_files = [] \<rparr>),
          (''r2'', \<lparr> ri_number = Some 1, ri_files = [] \<rparr>)] \<rparr>"

text \<open>A revision whose key is the empty string.\<close>

definition empty_key_change :: change_info where
  "empty_key_change =
     \<lparr> ci_project = Some ''proj'',
       ci_current_revision = Some [],
       ci_revisions = [([], \<lparr> ri_number = Some 1, ri_files = [] \<rparr>)] \<rparr>"

text \<open>The value of \<^verbatim>\<open>urlparse\<close> at three URLs.\<close>

definition example_urlparse :: "string \<Rightarrow> py_exception + parsed_url" where
  "example_urlparse url =
     (if url = ''http://host/c/proj/sub/+/777''
      then Inr \<lparr> url_scheme = ''http'', url_hostname = Some ''host'', url_path = ''/c/proj/sub/+/777'' \<rparr>
      else if url = ''http://host/c/+/777''
      then Inr \<lparr> url_scheme = ''http'', url_hostname = Some ''host'', url_path = ''/c/+/777'' \<rparr>
      else if url = ''http://host/c/proj/+''
      then Inr \<lparr> url_scheme = ''http'', url_hostname = Some ''host'', url_path = ''/c/proj/+'' \<rparr>
      else if url = ''http://host/c/+/x/+/777''
      then Inr \<lparr> url_scheme = ''http'', url_hostname = Some ''host'', url_path = ''/c/+/x/+/777'' \<rparr>
      else Inl (ValueError ''unknown url''))"

text \<open>A session with a password, two responses with status 401 that differ in their body,
  a response with status 200, and a decoder that accepts the empty object only.\<close>

definition example_ctx :: gerrit_context where
  "example_ctx = \<lparr> ctx_host = ''http://host'', ctx_user = ''alice'', ctx_http_password = Some ''secret'' \<rparr>"

definition unauthorized_one :: http_response where
  "unauthorized_one =
     \<lparr> resp_status_code = 401, resp_reason = ''Unauthorized'',
       resp_url = ''http://host/a/changes/500/detail'', resp_text = ''Unauthorized'' \<rparr>"

definition unauthorized_two :: http_response where
  "unauthorized_two =
     \<lparr> resp_status_code = 401, resp_reason = ''Unauthorized'',
       resp_url = ''http://host/a/changes/500/detail'', resp_text = ''Account locked'' \<rparr>"

definition ok_response :: http_response where
  "ok_response =
     \<lparr> resp_status_code = 200, resp_reason = ''OK'',
       resp_url = ''http://host/a/changes/500/detail'', resp_text = ''{}'' \<rparr>"

definition example_loads :: "string \<Rightarrow> string + nat" where
  "example_loads s = (if s = ''{}'' then Inr 0 else Inl ''Expecting value: line 1 column 1 (char 0)'')"

text \<open>What the two tools return for change 500 on the example backend.\<close>

definition example_change_result :: "string change_result" where
  "example_change_result =
     \<lparr> cr_change_info = example_change,
       cr_project = ''proj'',
       cr_revision = ''r2'',
       cr_patchset = \<lparr> ri_number = Some 2, ri_files = example_files \<rparr>,
       cr_files =
         [\<lparr> fd_path = ''src/a.py'', fd_status = ''ADDED'', fd_lines_inserted = 3,
             fd_lines_deleted = 0, fd_size_delta = 40,
             fd_diff = ''a/changes/500/revisions/r2/files/src%2Fa.py/diff'' \<rparr>,
          \<lparr> fd_path = ''b.py'', fd_status = ''SAME'', fd_lines_inserted = 0,
             fd_lines_deleted = 0, fd_size_delta = 0,
             fd_diff = ''a/changes/500/revisions/r2/files/b.py/diff'' \<rparr>,
          \<lparr> fd_path = ''c.py'', fd_status = ''MODIFIED'', fd_lines_inserted = 1,
             fd_lines_deleted = 2, fd_size_delta = - 5,
             fd_diff = ''a/changes/500/revisions/r2/files/c.py/diff'' \<rparr>] \<rparr>"

definition example_diff_result :: "string diff_result" where
  "example_diff_result =
     \<lparr> dr_base_revision = ''r1'',
       dr_target_revision = ''r2'',
       dr_base_patchset = ''1'',
       dr_target_patchset = ''2'',
       dr_files =
         [(''src/a.py'',
           \<lparr> cf_status = ''ADDED'', cf_lines_inserted = 3, cf_lines_deleted = 0,
             cf_size_delta = 40,
             cf_diff = ''a/changes/500/revisions/r2/files/src%2Fa.py/diff?base=r1'' \<rparr>),
          (''c.py'',
           \<lparr> cf_status = ''MODIFIED'', cf_lines_inserted = 1, cf_lines_deleted = 2,
             cf_size_delta = - 5,
             cf_diff = ''a/changes/500/revisions/r2/files/c.py/diff?base=r1'' \<rparr>)] \<rparr>"

section \<open>Properties of the revision resolution\<close>

lemma str_nat_nonempty: "str_nat n \<noteq> []"
  by (subst str_nat.simps) simp

lemma str_int_nonempty: "str_int i \<noteq> []"
  by (simp add: str_int_def str_nat_nonempty)

lemma str_opt_int_nonempty: "str_opt_int v \<noteq> []"
  by (cases v) (simp_all add: str_opt_int_def str_int_nonempty)

lemma scan_revisions_first:
  "\<forall>(rid, info) \<in> set pre. str_opt_int (ri_number info) \<noteq> pn \<Longrightarrow>
   str_opt_int (ri_number info) = pn \<Longrightarrow>
   scan_revisions pn (pre @ (r, info) # post) = Some r"
  by (induction pre) auto

lemma scan_revisions_none:
  "\<forall>(rid, info) \<in> set revisions. str_opt_int (ri_number info) \<noteq> pn \<Longrightarrow>
   scan_revisions pn revisions = None"
  by (induction revisions) auto

lemma scan_revisions_unique:
  "distinct (map (\<lambda>(rid, info). str_opt_int (ri_number info)) revisions) \<Longrightarrow>
   (r, info) \<in> set revisions \<Longrightarrow> str_opt_int (ri_number info) = pn \<Longrightarrow>
   scan_revisions pn revisions = Some r"
  by (induction revisions) (auto simp: image_iff)

lemma resolve_revision_Some:
  "pn \<noteq> [] \<Longrightarrow> scan_revisions pn (ci_revisions D) = Some r \<Longrightarrow> r \<noteq> [] \<Longrightarrow>
   has_key (ci_revisions D) r \<Longrightarrow> resolve_revision D (Some pn) = Inr r"
  by (simp add: resolve_revision_def target_revision_of_def truthy_def)

lemma resolve_revision_None:
  "resolve_revision D None =
     (case ci_current_revision D of
        None \<Rightarrow> Inl revision_info_not_found
      | Some c \<Rightarrow> if c \<noteq> [] \<and> has_key (ci_revisions D) c then Inr c
                  else Inl revision_info_not_found)"
  by (simp add: resolve_revision_def target_revision_of_def split: option.splits)

lemma resolve_revision_unmatched:
  "n \<noteq> [] \<Longrightarrow> \<forall>(rid, info) \<in> set (ci_revisions D). str_opt_int (ri_number info) \<noteq> n \<Longrightarrow>
   resolve_revision D (Some n) = Inl (patchset_not_found n (available_patchsets (ci_revisions D)))"
  by (simp add: resolve_revision_def target_revision_of_def truthy_def scan_revisions_none)

lemma target_revision_of_empty: "target_revision_of D (Some []) = Inr (ci_current_revision D)"
  by (simp add: target_revision_of_def)

lemma resolve_revision_empty: "resolve_revision D (Some []) = resolve_revision D None"
  by (simp add: resolve_revision_def target_revision_of_def)

text \<open>
  Claim C1, as the code has it. With a patchset number \<open>n\<close>, the resolution returns the key
  of the first entry of the revisions, in iteration order, whose sequence number stringifies
  equal to \<open>n\<close>, when that key is not empty; when the stringified sequence numbers are
  pairwise distinct, this is the key of the one matching entry. With the patchset number
  absent, the resolution returns \<^verbatim>\<open>current_revision\<close> when it is a non-empty key of the
  revisions, and fails with \<^verbatim>\<open>Revision information not found\<close> otherwise.
\<close>

theorem resolve_revision_first_match_or_current:
  "(ci_revisions D = pre @ (r, info) # post \<and>
      (\<forall>(rid, i) \<in> set pre. str_opt_int (ri_number i) \<noteq> n) \<and>
      str_opt_int (ri_number info) = n \<and> r \<noteq> []
      \<longrightarrow> resolve_revision D (Some n) = Inr r)
   \<and> (distinct (map (\<lambda>(rid, i). str_opt_int (ri_number i)) (ci_revisions D)) \<and>
      (r', info') \<in> set (ci_revisions D) \<and> str_opt_int (ri_number info') = n \<and> r' \<noteq> []
      \<longrightarrow> resolve_revision D (Some n) = Inr r')
   \<and> (ci_current_revision D = Some c \<and> c \<noteq> [] \<and> has_key (ci_revisions D) c
      \<longrightarrow> resolve_revision D None = Inr c)
   \<and> (\<not> (\<exists>k. ci_current_revision D = Some k \<and> k \<noteq> [] \<and> has_key (ci_revisions D) k)
      \<longrightarrow> resolve_revision D None = Inl revision_info_not_found)"
proof (intro conjI impI)
  assume a: "ci_revisions D = pre @ (r, info) # post \<and>
      (\<forall>(rid, i) \<in> set pre. str_opt_int (ri_number i) \<noteq> n) \<and>
      str_opt_int (ri_number info) = n \<and> r \<noteq> []"
  then have "scan_revisions n (ci_revisions D) = Some r"
    using scan_revisions_first [of pre n info r post] by simp
  moreover from a have "n \<noteq> []"
    using str_opt_int_nonempty [of "ri_number info"] by simp
  moreover from a have "has_key (ci_revisions D) r"
    by (simp add: has_key_def)
  ultimately show "resolve_revision D (Some n) = Inr r"
    using a by (simp add: resolve_revision_Some)
next
  assume a: "distinct (map (\<lambda>(rid, i). str_opt_int (ri_number i)) (ci_revisions D)) \<and>
      (r', info') \<in> set (ci_revisions D) \<and> str_opt_int (ri_number info') = n \<and> r' \<noteq> []"
  then have "scan_revisions n (ci_revisions D) = Some r'"
    using scan_revisions_unique [of "ci_revisions D" r' info' n] by simp
  moreover from a have "n \<noteq> []"
    using str_opt_int_nonempty [of "ri_number info'"] by simp
  moreover from a have "has_key (ci_revisions D) r'"
    by (force simp: has_key_def)
  ultimately show "resolve_revision D (Some n) = Inr r'"
    using a by (simp add: resolve_revision_Some)
next
  assume "ci_current_revision D = Some c \<and> c \<noteq> [] \<and> has_key (ci_revisions D) c"
  then show "resolve_revision D None = Inr c"
    by (simp add: resolve_revision_None)
next
  assume "\<not> (\<exists>k. ci_current_revision D = Some k \<and> k \<noteq> [] \<and> has_key (ci_revisions D) k)"
  then show "resolve_revision D None = Inl revision_info_not_found"
    by (auto simp add: resolve_revision_None split: option.splits)
qed

text \<open>
  Witness for C1: on change 500, patchset \<^verbatim>\<open>"1"\<close> resolves to \<^verbatim>\<open>r1\<close>, patchset
  \<^verbatim>\<open>"2"\<close> and the absent patchset to \<^verbatim>\<open>r2\<close>; on the change whose current revision is no
  key, the absent patchset fails.
\<close>

theorem resolve_revision_first_match_or_current_witness:
  "resolve_revision example_change (Some ''1'') = Inr ''r1''
   \<and> resolve_revision example_change (Some ''2'') = Inr ''r2''
   \<and> resolve_revision example_change None = Inr ''r2''
   \<and> resolve_revision twin_change None = Inl revision_info_not_found"
proof -
  let ?i1 = "\<lparr> ri_number = Some 1, ri_files = example_files \<rparr>"
  let ?i2 = "\<lparr> ri_number = Some 2, ri_files = example_files \<rparr>"
  have s1: "str_opt_int (Some 1) = ''1''" by code_simp
  have s2: "str_opt_int (Some 2) = ''2''" by code_simp
  have h1: "ci_revisions example_change = [] @ (''r1'', ?i1) # [(''r2'', ?i2)] \<and>
      (\<forall>(rid, i) \<in> set []. str_opt_int (ri_number i) \<noteq> ''1'') \<and>
      str_opt_int (ri_number ?i1) = ''1'' \<and> ''r1'' \<noteq> []"
    by (simp add: example_change_def s1)
  have h2: "distinct (map (\<lambda>(rid, i). str_opt_int (ri_number i)) (ci_revisions example_change)) \<and>
      (''r2'', ?i2) \<in> set (ci_revisions example_change) \<and> str_opt_int (ri_number ?i2) = ''2'' \<and> ''r2'' \<noteq> []"
    by (simp add: example_change_def s1 s2)
  have h3: "ci_current_revision example_change = Some ''r2'' \<and> ''r2'' \<noteq> [] \<and>
      has_key (ci_revisions example_change) ''r2''"
    by (simp add: example_change_def has_key_def)
  have h4: "\<not> (\<exists>k. ci_current_revision twin_change = Some k \<and> k \<noteq> [] \<and> has_key (ci_revisions twin_change) k)"
    by (simp add: twin_change_def has_key_def)
  note t1 = resolve_revision_first_match_or_current
    [of example_change "[]" "''r1''" ?i1 "[(''r2'', ?i2)]" "''1''" "''r2''" ?i2 "''r2''"]
  note t2 = resolve_revision_first_match_or_current
    [of example_change "[]" "''r1''" ?i1 "[(''r2'', ?i2)]" "''2''" "''r2''" ?i2 "''r2''"]
  note t3 = resolve_revision_first_match_or_current
    [of twin_change "[]" "''r1''" ?i1 "[(''r2'', ?i2)]" "''2''" "''r2''" ?i2 "''r2''"]
  from t1 h1 have "resolve_revision example_change (Some ''1'') = Inr ''r1''" by blast
  moreover from t2 h2 have "resolve_revision example_change (Some ''2'') = Inr ''r2''" by blast
  moreover from t1 h3 have "resolve_revision example_change None = Inr ''r2''" by blast
  moreover from t3 h4 have "resolve_revision twin_change None = Inl revision_info_not_found" by blast
  ultimately show ?thesis by simp
qed

text \<open>
  Counterexample to C1 as stated. In the change with two revisions of patchset number 1, the
  entry \<^verbatim>\<open>r2\<close> matches \<^verbatim>\<open>"1"\<close> and the resolution returns \<^verbatim>\<open>r1\<close>; its current
  revision \<^verbatim>\<open>r9\<close> is no key of the revisions, and the resolution without a patchset number
  fails instead of returning it; and a matching entry under the empty key is reported as
  not found.
\<close>

theorem resolve_revision_counterexample:
  "(''r2'', \<lparr> ri_number = Some 1, ri_files = [] \<rparr>) \<in> set (ci_revisions twin_change)
   \<and> str_opt_int (Some 1) = ''1''
   \<and> resolve_revision twin_change (Some ''1'') = Inr ''r1''
   \<and> ci_current_revision twin_change = Some ''r9''
   \<and> resolve_revision twin_change None = Inl revision_info_not_found
   \<and> resolve_revision empty_key_change (Some ''1'') = Inl (patchset_not_found ''1'' [''1''])"
proof -
  have "(''r2'', \<lparr> ri_number = Some 1, ri_files = [] \<rparr>) \<in> set (ci_revisions twin_change)"
    by (simp add: twin_change_def)
  moreover have "str_opt_int (Some 1) = ''1''" by code_simp
  moreover have "resolve_revision twin_change (Some ''1'') = Inr ''r1''" by code_simp
  moreover have "ci_current_revision twin_change = Some ''r9''" by (simp add: twin_change_def)
  moreover have "resolve_revision twin_change None = Inl revision_info_not_found" by code_simp
  moreover have "resolve_revision empty_key_change (Some ''1'') = Inl (patchset_not_found ''1'' [''1''])"
    by code_simp
  ultimately show ?thesis by blast
qed

text \<open>
  Claim C2, as the code has it. For a non-empty patchset number \<open>n\<close> that matches no
  revision's stringified sequence number, the resolution fails with the patchset-not-found
  error whose list of available patchsets holds the stringified sequence number of every
  revision, one per revision, sorted in the lexicographic order of strings; the list is free
  of duplicates exactly when the stringified sequence numbers of the revisions are.
\<close>

theorem patchset_not_found_lists_sorted_numbers:
  assumes "n \<noteq> []"
    and "\<forall>(rid, info) \<in> set (ci_revisions D). str_opt_int (ri_number info) \<noteq> n"
  shows "resolve_revision D (Some n) = Inl (patchset_not_found n (available_patchsets (ci_revisions D)))
    \<and> sorted (available_patchsets (ci_revisions D))
    \<and> mset (available_patchsets (ci_revisions D)) =
        mset (map (\<lambda>(rid, info). str_opt_int (ri_number info)) (ci_revisions D))
    \<and> (distinct (available_patchsets (ci_revisions D)) \<longleftrightarrow>
        distinct (map (\<lambda>(rid, info). str_opt_int (ri_number info)) (ci_revisions D)))"
proof (intro conjI)
  show "resolve_revision D (Some n) = Inl (patchset_not_found n (available_patchsets (ci_revisions D)))"
    using assms by (rule resolve_revision_unmatched)
  show "sorted (available_patchsets (ci_revisions D))"
    by (simp add: available_patchsets_def)
  show "mset (available_patchsets (ci_revisions D)) =
        mset (map (\<lambda>(rid, info). str_opt_int (ri_number info)) (ci_revisions D))"
    by (simp add: available_patchsets_def)
  show "distinct (available_patchsets (ci_revisions D)) \<longleftrightarrow>
        distinct (map (\<lambda>(rid, info). str_opt_int (ri_number info)) (ci_revisions D))"
    by (simp add: available_patchsets_def)
qed

text \<open>Witness for C2: patchset \<^verbatim>\<open>"9"\<close> of change 500 is not found, and patchsets 1 and 2
  are listed.\<close>

theorem patchset_not_found_lists_sorted_numbers_witness:
  "resolve_revision example_change (Some ''9'') = Inl (ValueError ''Patchset 9 not found. Available patchsets: 1, 2'')
   \<and> available_patchsets (ci_revisions example_change) = [''1'', ''2'']"
proof -
  have av: "available_patchsets (ci_revisions example_change) = [''1'', ''2'']" by code_simp
  have s1: "str_opt_int (Some 1) = ''1''" by code_simp
  have s2: "str_opt_int (Some 2) = ''2''" by code_simp
  have h1: "''9'' \<noteq> []" by simp
  have h2: "\<forall>(rid, info) \<in> set (ci_revisions example_change). str_opt_int (ri_number info) \<noteq> ''9''"
    by (simp add: example_change_def s1 s2)
  from patchset_not_found_lists_sorted_numbers [OF h1 h2]
  have "resolve_revision example_change (Some ''9'') =
          Inl (patchset_not_found ''9'' (available_patchsets (ci_revisions example_change)))"
    by blast
  then show ?thesis
    by (simp add: av patchset_not_found_def)
qed

text \<open>
  Counterexample to C2 as stated. The empty patchset number matches no sequence number of
  change 500, and the resolution returns the current revision; and for the change with two
  revisions of patchset number 1 the list of available patchsets holds \<^verbatim>\<open>"1"\<close> twice.
\<close>

theorem patchset_not_found_counterexample:
  "resolve_revision example_change (Some []) = Inr ''r2''
   \<and> resolve_revision twin_change (Some ''7'') = Inl (patchset_not_found ''7'' [''1'', ''1''])"
proof -
  have "resolve_revision example_change (Some []) = Inr ''r2''" by code_simp
  moreover have "resolve_revision twin_change (Some ''7'') = Inl (patchset_not_found ''7'' [''1'', ''1''])"
    by code_simp
  ultimately show ?thesis by blast
qed

section \<open>Properties of the diff aggregation\<close>

lemma process_files_paths:
  "process_files be change_id target_revision acc xs = Inr res \<Longrightarrow>
   fd_path ` set res \<subseteq> fd_path ` set acc \<union> (fst ` set xs - {commit_msg})"
proof (induction xs arbitrary: acc)
  case Nil
  then show ?case by simp
next
  case (Cons x xs)
  obtain file_path file_info where x: "x = (file_path, file_info)" by (cases x)
  show ?case
  proof (cases "file_path = commit_msg")
    case True
    with Cons x show ?thesis by auto
  next
    case False
    with Cons.prems x obtain diff_info where
      d: "request_diff be (diff_endpoint change_id target_revision file_path) = Inr diff_info"
      by (auto split: sum.splits)
    let ?acc = "acc @ [\<lparr> fd_path = file_path,
                        fd_status = get_or (fi_status file_info) ''MODIFIED'',
                        fd_lines_inserted = get_or (fi_lines_inserted file_info) 0,
                        fd_lines_deleted = get_or (fi_lines_deleted file_info) 0,
                        fd_size_delta = get_or (fi_size_delta file_info) 0,
                        fd_diff = diff_info \<rparr>]"
    from Cons.prems x False d
    have "process_files be change_id target_revision ?acc xs = Inr res" by simp
    from Cons.IH [OF this] x False show ?thesis by auto
  qed
qed

lemma changed_files_loop_keys:
  "changed_files_loop be change_id target_revision base_revision acc xs = Inr res \<Longrightarrow>
   fst ` set res =
     fst ` set acc \<union> {k. \<exists>fi. (k, fi) \<in> set xs \<and> k \<noteq> commit_msg \<and> fi_status fi \<noteq> Some ''SAME''}"
proof (induction xs arbitrary: acc)
  case Nil
  then show ?case by simp
next
  case (Cons x xs)
  obtain fpath file_info where x: "x = (fpath, file_info)" by (cases x)
  show ?case
  proof (cases "fpath = commit_msg \<or> fi_status file_info = Some ''SAME''")
    case True
    with Cons.prems x
    have "changed_files_loop be change_id target_revision base_revision acc xs = Inr res"
      by (auto split: if_splits)
    from Cons.IH [OF this] x True show ?thesis by auto
  next
    case False
    with Cons.prems x obtain diff_info where
      d: "request_diff be (file_diff_endpoint change_id target_revision base_revision fpath) = Inr diff_info"
      by (auto split: sum.splits)
    let ?acc = "AList.update fpath
                     \<lparr> cf_status = get_or (fi_status file_info) ''MODIFIED'',
                       cf_lines_inserted = get_or (fi_lines_inserted file_info) 0,
                       cf_lines_deleted = get_or (fi_lines_deleted file_info) 0,
                       cf_size_delta = get_or (fi_size_delta file_info) 0,
                       cf_diff = diff_info \<rparr> acc"
    from Cons.prems x False d
    have "changed_files_loop be change_id target_revision base_revision ?acc xs = Inr res"
      by simp
    from Cons.IH [OF this] x False show ?thesis
      by (auto simp: dom_update)
  qed
qed

lemma fetch_gerrit_change_files:
  "fetch_gerrit_change be change_id patchset_number = Inr r \<Longrightarrow>
   \<exists>revision_info :: revision_info.
     process_files be change_id (cr_revision r) [] (ri_files revision_info) = Inr (cr_files r)"
  by (auto simp: fetch_gerrit_change_def split: sum.splits option.splits if_splits)

lemma fetch_patchset_diff_files:
  "fetch_patchset_diff be change_id base_patchset target_patchset file_path = Inr r \<Longrightarrow>
   \<exists>files_diff.
     request_files be (files_endpoint change_id (dr_target_revision r) (dr_base_revision r)) = Inr files_diff
     \<and> changed_files_loop be change_id (dr_target_revision r) (dr_base_revision r) [] files_diff
         = Inr (dr_files r)"
  by (auto simp: fetch_patchset_diff_def Let_def split: sum.splits option.splits if_splits prod.splits)

text \<open>
  Claim C3. Whatever the change detail and the file list hold, the file sequence returned by
  \<^verbatim>\<open>fetch_gerrit_change\<close> has no entry whose path is \<^verbatim>\<open>/COMMIT_MSG\<close>, and the file map
  returned by \<^verbatim>\<open>fetch_patchset_diff\<close> has no such key.
\<close>

theorem commit_msg_never_in_output:
  "(fetch_gerrit_change be change_id patchset_number = Inr r
      \<longrightarrow> ''/COMMIT_MSG'' \<notin> fd_path ` set (cr_files r))
   \<and> (fetch_patchset_diff be change_id base_patchset target_patchset file_path = Inr r'
      \<longrightarrow> ''/COMMIT_MSG'' \<notin> fst ` set (dr_files r'))"
proof (intro conjI impI)
  assume "fetch_gerrit_change be change_id patchset_number = Inr r"
  then obtain revision_info :: revision_info where
    "process_files be change_id (cr_revision r) [] (ri_files revision_info) = Inr (cr_files r)"
    using fetch_gerrit_change_files by blast
  from process_files_paths [OF this]
  show "''/COMMIT_MSG'' \<notin> fd_path ` set (cr_files r)"
    by (auto simp: commit_msg_def)
next
  assume "fetch_patchset_diff be change_id base_patchset target_patchset file_path = Inr r'"
  then obtain files_diff where
    "changed_files_loop be change_id (dr_target_revision r') (dr_base_revision r') [] files_diff
       = Inr (dr_files r')"
    using fetch_patchset_diff_files by blast
  from changed_files_loop_keys [OF this]
  show "''/COMMIT_MSG'' \<notin> fst ` set (dr_files r')"
    by (auto simp: commit_msg_def)
qed

text \<open>
  Claim C4. When \<^verbatim>\<open>fetch_patchset_diff\<close> succeeds, \<open>files_diff\<close> being the file-status
  map that the file-list request relative to the base returned (a dictionary, so with
  pairwise distinct keys): every key of the output map is a key of \<open>files_diff\<close> whose
  status is not \<^verbatim>\<open>SAME\<close>, and every entry of \<open>files_diff\<close> whose status is \<^verbatim>\<open>SAME\<close>
  is left out of the output map.
\<close>

theorem patchset_diff_keys_not_same:
  assumes "fetch_patchset_diff be change_id base_patchset target_patchset file_path = Inr r"
    and "request_files be (files_endpoint change_id (dr_target_revision r) (dr_base_revision r)) = Inr files_diff"
    and "distinct (map fst files_diff)"
  shows "(\<forall>k \<in> fst ` set (dr_files r). \<exists>fi. map_of files_diff k = Some fi \<and> fi_status fi \<noteq> Some ''SAME'')
    \<and> (\<forall>(k, fi) \<in> set files_diff. fi_status fi = Some ''SAME'' \<longrightarrow> k \<notin> fst ` set (dr_files r))"
proof -
  from assms(1) obtain fd where
    fd: "request_files be (files_endpoint change_id (dr_target_revision r) (dr_base_revision r)) = Inr fd"
    and loop: "changed_files_loop be change_id (dr_target_revision r) (dr_base_revision r) [] fd
         = Inr (dr_files r)"
    using fetch_patchset_diff_files by blast
  from fd assms(2) have "fd = files_diff" by simp
  with loop have keys: "fst ` set (dr_files r) =
     {k. \<exists>fi. (k, fi) \<in> set files_diff \<and> k \<noteq> commit_msg \<and> fi_status fi \<noteq> Some ''SAME''}"
    using changed_files_loop_keys [of be change_id "dr_target_revision r" "dr_base_revision r" "[]" fd "dr_files r"]
    by simp
  have a: "\<forall>k \<in> fst ` set (dr_files r). \<exists>fi. map_of files_diff k = Some fi \<and> fi_status fi \<noteq> Some ''SAME''"
  proof
    fix k assume "k \<in> fst ` set (dr_files r)"
    with keys obtain fi where "(k, fi) \<in> set files_diff" "fi_status fi \<noteq> Some ''SAME''" by auto
    with assms(3) show "\<exists>fi. map_of files_diff k = Some fi \<and> fi_status fi \<noteq> Some ''SAME''"
      by auto
  qed
  have b: "k \<notin> fst ` set (dr_files r)"
    if m: "(k, fi) \<in> set files_diff" and s: "fi_status fi = Some ''SAME''" for k fi
  proof
    assume "k \<in> fst ` set (dr_files r)"
    with keys obtain fi' where m': "(k, fi') \<in> set files_diff" and s': "fi_status fi' \<noteq> Some ''SAME''"
      by auto
    from assms(3) m m' have "fi = fi'" by (meson eq_key_imp_eq_value)
    with s s' show False by simp
  qed
  from a b show ?thesis by blast
qed

text \<open>
  Claim C9. For a fixed backend, change id, base and target patchset number, the result of
  \<^verbatim>\<open>fetch_patchset_diff\<close> with a \<^verbatim>\<open>file_path\<close> argument is the result without it.
\<close>

theorem file_path_argument_ignored:
  "fetch_patchset_diff be change_id base_patchset target_patchset file_path =
   fetch_patchset_diff be change_id base_patchset target_patchset None"
  by (simp add: fetch_patchset_diff_def)


text \<open>Witness for C3: the file list of change 500 holds \<^verbatim>\<open>/COMMIT_MSG\<close>, both tools
  succeed, and neither output holds it.\<close>

theorem commit_msg_never_in_output_witness:
  "''/COMMIT_MSG'' \<in> fst ` set example_files
   \<and> fetch_gerrit_change example_backend ''500'' None = Inr example_change_result
   \<and> ''/COMMIT_MSG'' \<notin> fd_path ` set (cr_files example_change_result)
   \<and> fetch_patchset_diff example_backend ''500'' ''1'' ''2'' None = Inr example_diff_result
   \<and> ''/COMMIT_MSG'' \<notin> fst ` set (dr_files example_diff_result)"
proof -
  have i: "''/COMMIT_MSG'' \<in> fst ` set example_files"
    by (simp add: example_files_def)
  have c: "fetch_gerrit_change example_backend ''500'' None = Inr example_change_result"
    by code_simp
  have d: "fetch_patchset_diff example_backend ''500'' ''1'' ''2'' None = Inr example_diff_result"
    by code_simp
  note t = commit_msg_never_in_output
    [of example_backend "''500''" None example_change_result "''1''" "''2''" None example_diff_result]
  from t c have "''/COMMIT_MSG'' \<notin> fd_path ` set (cr_files example_change_result)" by blast
  moreover from t d have "''/COMMIT_MSG'' \<notin> fst ` set (dr_files example_diff_result)" by blast
  ultimately show ?thesis using i c d by blast
qed

text \<open>Witness for C4, between patchsets 1 and 2 of change 500: \<^verbatim>\<open>c.py\<close> is a key of the
  output and of the upstream map, and \<^verbatim>\<open>b.py\<close>, whose status is \<^verbatim>\<open>SAME\<close>, is left out.\<close>

theorem patchset_diff_keys_not_same_witness:
  "fetch_patchset_diff example_backend ''500'' ''1'' ''2'' None = Inr example_diff_result
   \<and> request_files example_backend (files_endpoint ''500'' ''r2'' ''r1'') = Inr example_files
   \<and> distinct (map fst example_files)
   \<and> ''c.py'' \<in> fst ` set (dr_files example_diff_result)
   \<and> map_of example_files ''c.py'' \<noteq> None
   \<and> ''b.py'' \<notin> fst ` set (dr_files example_diff_result)"
proof -
  let ?b = "\<lparr> fi_status = Some ''SAME'', fi_lines_inserted = None,
                   fi_lines_deleted = None, fi_size_delta = Some 0 \<rparr>"
  have d: "fetch_patchset_diff example_backend ''500'' ''1'' ''2'' None = Inr example_diff_result"
    by code_simp
  have f: "request_files example_backend (files_endpoint ''500'' ''r2'' ''r1'') = Inr example_files"
    by (simp add: example_backend_def example_request_files_def)
  have f': "request_files example_backend
      (files_endpoint ''500'' (dr_target_revision example_diff_result) (dr_base_revision example_diff_result))
      = Inr example_files"
    using f by (simp add: example_diff_result_def)
  have u: "distinct (map fst example_files)"
    by (simp add: example_files_def)
  have c: "''c.py'' \<in> fst ` set (dr_files example_diff_result)"
    by (simp add: example_diff_result_def)
  have b: "(''b.py'', ?b) \<in> set example_files" "fi_status ?b = Some ''SAME''"
    by (simp_all add: example_files_def)
  note t = patchset_diff_keys_not_same [OF d f' u]
  from t c have "\<exists>fi. map_of example_files ''c.py'' = Some fi \<and> fi_status fi \<noteq> Some ''SAME''"
    by blast
  then have "map_of example_files ''c.py'' \<noteq> None" by auto
  moreover from t b have "''b.py'' \<notin> fst ` set (dr_files example_diff_result)" by blast
  ultimately show ?thesis using d f u c by blast
qed

text \<open>Witness for C9: asked for \<^verbatim>\<open>src/a.py\<close> only, the tool still returns both changed
  files of change 500.\<close>

theorem file_path_argument_ignored_witness:
  "fetch_patchset_diff example_backend ''500'' ''1'' ''2'' (Some ''src/a.py'') = Inr example_diff_result
   \<and> map fst (dr_files example_diff_result) = [''src/a.py'', ''c.py'']"
proof -
  have d: "fetch_patchset_diff example_backend ''500'' ''1'' ''2'' None = Inr example_diff_result"
    by code_simp
  have k: "map fst (dr_files example_diff_result) = [''src/a.py'', ''c.py'']"
    by (simp add: example_diff_result_def)
  from file_path_argument_ignored [of example_backend "''500''" "''1''" "''2''" "Some ''src/a.py''"] d k
  show ?thesis by simp
qed

section \<open>Properties of the request primitive\<close>

lemma authentication_failed_not_request_failed: "authentication_failed \<noteq> request_failed m"
  by (simp add: authentication_failed_def request_failed_def)

lemma authentication_failed_not_parse_failed: "authentication_failed \<noteq> parse_failed m"
  by (simp add: authentication_failed_def parse_failed_def)

lemma parse_content_not_authentication_failed:
  "parse_content json_loads content \<noteq> Inl authentication_failed"
  by (auto simp: parse_content_def Let_def authentication_failed_def parse_failed_def
      split: sum.splits)

text \<open>
  Claim C5, as the code has it. With a password in the session, a response of status 401
  makes the request primitive fail with the authentication error, an exception whose message
  is one fixed text, the same for every body: the body is not part of the error. No
  response of another status yields this error, and it differs from every transport-failure
  error.
\<close>

theorem status_401_is_authentication_failure:
  assumes "truthy (ctx_http_password gerrit_ctx)"
    and "http_get (request_url gerrit_ctx endpoint) (ctx_user gerrit_ctx)
           (get_or (ctx_http_password gerrit_ctx) []) = Inr response"
  shows "(resp_status_code response = 401 \<longrightarrow>
            make_gerrit_rest_request http_get json_loads gerrit_ctx endpoint = Inl authentication_failed)
    \<and> (resp_status_code response \<noteq> 401 \<longrightarrow>
            make_gerrit_rest_request http_get json_loads gerrit_ctx endpoint \<noteq> Inl authentication_failed)
    \<and> authentication_failed \<noteq> request_failed m"
proof (intro conjI impI)
  assume "resp_status_code response = 401"
  with assms show "make_gerrit_rest_request http_get json_loads gerrit_ctx endpoint = Inl authentication_failed"
    by (simp add: make_gerrit_rest_request_def)
next
  assume n: "resp_status_code response \<noteq> 401"
  show "make_gerrit_rest_request http_get json_loads gerrit_ctx endpoint \<noteq> Inl authentication_failed"
  proof (cases "raise_for_status response")
    case None
    with assms n show ?thesis
      by (simp add: make_gerrit_rest_request_def parse_content_not_authentication_failed)
  next
    case (Some e)
    with assms n show ?thesis
      using authentication_failed_not_request_failed [of e]
      by (auto simp: make_gerrit_rest_request_def)
  qed
next
  show "authentication_failed \<noteq> request_failed m"
    by (rule authentication_failed_not_request_failed)
qed

text \<open>Witness for C5: a response of status 401 and a response of status 200.\<close>

theorem status_401_is_authentication_failure_witness:
  "make_gerrit_rest_request (http_get_const unauthorized_one) example_loads example_ctx ''changes/500/detail''
     = Inl authentication_failed
   \<and> make_gerrit_rest_request (http_get_const ok_response) example_loads example_ctx ''changes/500/detail''
     \<noteq> Inl authentication_failed"
proof -
  have p: "truthy (ctx_http_password example_ctx)"
    by (simp add: example_ctx_def truthy_def)
  have g1: "http_get_const unauthorized_one (request_url example_ctx ''changes/500/detail'')
      (ctx_user example_ctx) (get_or (ctx_http_password example_ctx) []) = Inr unauthorized_one"
    by (simp add: http_get_const_def)
  have g2: "http_get_const ok_response (request_url example_ctx ''changes/500/detail'')
      (ctx_user example_ctx) (get_or (ctx_http_password example_ctx) []) = Inr ok_response"
    by (simp add: http_get_const_def)
  have s1: "resp_status_code unauthorized_one = 401" by (simp add: unauthorized_one_def)
  have s2: "resp_status_code ok_response \<noteq> 401" by (simp add: ok_response_def)
  from status_401_is_authentication_failure
    [where gerrit_ctx = example_ctx and http_get = "http_get_const unauthorized_one"
       and endpoint = "''changes/500/detail''" and response = unauthorized_one
       and json_loads = example_loads and m = "[]"] p g1 s1
  have "make_gerrit_rest_request (http_get_const unauthorized_one) example_loads example_ctx
          ''changes/500/detail'' = Inl authentication_failed" by blast
  moreover from status_401_is_authentication_failure
    [where gerrit_ctx = example_ctx and http_get = "http_get_const ok_response"
       and endpoint = "''changes/500/detail''" and response = ok_response
       and json_loads = example_loads and m = "[]"] p g2 s2
  have "make_gerrit_rest_request (http_get_const ok_response) example_loads example_ctx
          ''changes/500/detail'' \<noteq> Inl authentication_failed" by blast
  ultimately show ?thesis by blast
qed

text \<open>
  Counterexample to C5 as stated: two responses of status 401 with different bodies yield
  the same error, whose message holds neither body.
\<close>

theorem authentication_error_counterexample:
  "resp_text unauthorized_one \<noteq> resp_text unauthorized_two
   \<and> make_gerrit_rest_request (http_get_const unauthorized_one) example_loads example_ctx ''changes/500/detail''
     = Inl (Exception ''Authentication failed. Please check your Gerrit HTTP password in your account settings.'')
   \<and> make_gerrit_rest_request (http_get_const unauthorized_two) example_loads example_ctx ''changes/500/detail''
     = Inl (Exception ''Authentication failed. Please check your Gerrit HTTP password in your account settings.'')"
proof -
  have "resp_text unauthorized_one \<noteq> resp_text unauthorized_two"
    by (simp add: unauthorized_one_def unauthorized_two_def)
  moreover have "make_gerrit_rest_request (http_get_const unauthorized_one) example_loads example_ctx ''changes/500/detail''
     = Inl (Exception ''Authentication failed. Please check your Gerrit HTTP password in your account settings.'')"
    by code_simp
  moreover have "make_gerrit_rest_request (http_get_const unauthorized_two) example_loads example_ctx ''changes/500/detail''
     = Inl (Exception ''Authentication failed. Please check your Gerrit HTTP password in your account settings.'')"
    by code_simp
  ultimately show ?thesis by blast
qed

lemma startswith_append: "startswith (p @ s) p"
  by (simp add: startswith_def)

lemma parse_content_prefixed:
  "parse_content json_loads (magic_prefix @ j) =
     (case json_loads j of Inl m \<Rightarrow> Inl (parse_failed m) | Inr result \<Rightarrow> Inr result)"
  by (simp add: parse_content_def startswith_append) (simp add: magic_prefix_def)

lemma parse_content_plain:
  "\<not> startswith j magic_prefix \<Longrightarrow>
   parse_content json_loads j =
     (case json_loads j of Inl m \<Rightarrow> Inl (parse_failed m) | Inr result \<Rightarrow> Inr result)"
  by (simp add: parse_content_def)

text \<open>
  Claim C6. Let \<open>j\<close> be a body the JSON decoder accepts, the decoder rejecting every text
  that starts with the prefix \<^verbatim>\<open>)]}'\<close> (no JSON text starts with a closing parenthesis).
  Then the body made of the prefix followed by \<open>j\<close> is parsed to what \<open>j\<close> alone is
  parsed to, and the request primitive returns the same for both bodies.
\<close>

theorem magic_prefix_stripped_before_parsing:
  assumes "json_loads j = Inr v"
    and "\<forall>s. startswith s magic_prefix \<longrightarrow> (\<exists>m. json_loads s = Inl m)"
  shows "parse_content json_loads (magic_prefix @ j) = parse_content json_loads j
    \<and> parse_content json_loads j = Inr v
    \<and> make_gerrit_rest_request (http_get_const (response\<lparr>resp_text := magic_prefix @ j\<rparr>)) json_loads gerrit_ctx endpoint
      = make_gerrit_rest_request (http_get_const (response\<lparr>resp_text := j\<rparr>)) json_loads gerrit_ctx endpoint
    \<and> (truthy (ctx_http_password gerrit_ctx) \<and> resp_status_code response \<noteq> 401
         \<and> raise_for_status response = None \<longrightarrow>
       make_gerrit_rest_request (http_get_const (response\<lparr>resp_text := magic_prefix @ j\<rparr>)) json_loads gerrit_ctx endpoint
         = Inr v)"
proof -
  from assms have n: "\<not> startswith j magic_prefix" by auto
  have a: "parse_content json_loads (magic_prefix @ j) = Inr v"
    using assms(1) by (simp add: parse_content_prefixed)
  have b: "parse_content json_loads j = Inr v"
    using assms(1) n by (simp add: parse_content_plain)
  have r: "raise_for_status (response\<lparr>resp_text := t\<rparr>) = raise_for_status response" for t
    by (simp add: raise_for_status_def Let_def)
  have c: "make_gerrit_rest_request (http_get_const (response\<lparr>resp_text := magic_prefix @ j\<rparr>)) json_loads gerrit_ctx endpoint
      = make_gerrit_rest_request (http_get_const (response\<lparr>resp_text := j\<rparr>)) json_loads gerrit_ctx endpoint"
    by (simp add: make_gerrit_rest_request_def http_get_const_def r a b split: option.splits)
  have d: "make_gerrit_rest_request (http_get_const (response\<lparr>resp_text := magic_prefix @ j\<rparr>)) json_loads gerrit_ctx endpoint
         = Inr v"
    if "truthy (ctx_http_password gerrit_ctx) \<and> resp_status_code response \<noteq> 401
         \<and> raise_for_status response = None"
    using that by (simp add: make_gerrit_rest_request_def http_get_const_def r a)
  from a b c d show ?thesis by simp
qed

text \<open>Witness for C6: the empty object, with and without the prefix.\<close>

theorem magic_prefix_stripped_before_parsing_witness:
  "example_loads ''{}'' = Inr 0
   \<and> make_gerrit_rest_request (http_get_const (ok_response\<lparr>resp_text := magic_prefix @ ''{}''\<rparr>))
        example_loads example_ctx ''changes/500/detail'' = Inr 0
   \<and> make_gerrit_rest_request (http_get_const (ok_response\<lparr>resp_text := ''{}''\<rparr>))
        example_loads example_ctx ''changes/500/detail'' = Inr 0"
proof -
  have l: "example_loads ''{}'' = Inr 0" by (simp add: example_loads_def)
  have rej: "\<forall>s. startswith s magic_prefix \<longrightarrow> (\<exists>m. example_loads s = Inl m)"
    by (auto simp: example_loads_def startswith_def magic_prefix_def)
  have ok: "truthy (ctx_http_password example_ctx) \<and> resp_status_code ok_response \<noteq> 401
         \<and> raise_for_status ok_response = None"
    by (simp add: example_ctx_def truthy_def ok_response_def raise_for_status_def)
  note t = magic_prefix_stripped_before_parsing [OF l rej, of ok_response example_ctx "''changes/500/detail''"]
  from t ok have "make_gerrit_rest_request (http_get_const (ok_response\<lparr>resp_text := magic_prefix @ ''{}''\<rparr>))
        example_loads example_ctx ''changes/500/detail'' = Inr 0" by blast
  moreover from t this have "make_gerrit_rest_request (http_get_const (ok_response\<lparr>resp_text := ''{}''\<rparr>))
        example_loads example_ctx ''changes/500/detail'' = Inr 0" by simp
  ultimately show ?thesis using l by blast
qed

section \<open>Properties of the clone URL\<close>

lemma split_nonempty: "split c s \<noteq> []"
  by (induction s) (auto split: list.splits)

lemma list_getitem_last: "xs \<noteq> [] \<Longrightarrow> list_getitem xs (- 1) = Inr (last xs)"
  by (cases xs rule: rev_cases) (auto simp: list_getitem_def nth_append)

lemma list_getitem_in_range:
  "i < length xs \<Longrightarrow> list_getitem xs (int i) = Inr (xs ! i)"
  by (simp add: list_getitem_def)

lemma project_of_path_plus:
  assumes "''+'' \<in> set path_parts"
    and "1 < list_index path_parts ''+''"
    and "Suc (list_index path_parts ''+'') < length path_parts"
  shows "project_of_path be path_parts =
    Inr (join ''/'' (drop 1 (take (list_index path_parts ''+'') path_parts)))"
proof -
  have "list_getitem path_parts (int (list_index path_parts ''+'') + 1)
          = Inr (path_parts ! Suc (list_index path_parts ''+''))"
    using list_getitem_in_range [OF assms(3)] by (simp add: add.commute)
  with assms show ?thesis
    by (simp add: project_of_path_def slice_1_def)
qed

lemma project_of_path_lookup:
  assumes "path_parts \<noteq> []"
    and "''+'' \<notin> set path_parts \<or> list_index path_parts ''+'' \<le> 1"
  shows "project_of_path be path_parts =
    (case fetch_gerrit_change be (last path_parts) None of
       Inl e \<Rightarrow> Inl e
     | Inr change_info \<Rightarrow> Inr (cr_project change_info))"
  using assms by (auto simp: project_of_path_def list_getitem_last)

text \<open>
  Claim C7, as the code has it. When the first \<^verbatim>\<open>+\<close> segment of the path stands at a
  position greater than 1 and is followed by another segment, the tool called with
  \<^verbatim>\<open>"ssh"\<close> takes the segments between the leading segment and that \<^verbatim>\<open>+\<close> as the
  project path and returns \<^verbatim>\<open>ssh://{user@}{host}:29418/{project}.git\<close>, the user prefix
  being left out when the user is empty.
\<close>

theorem ssh_clone_url_from_path:
  assumes "urlparse change_url = Inr parsed"
    and "path_parts = split CHR ''/'' (strip CHR ''/'' (url_path parsed))"
    and "''+'' \<in> set path_parts"
    and "1 < list_index path_parts ''+''"
    and "Suc (list_index path_parts ''+'') < length path_parts"
  shows "get_repository_path_from_change urlparse be session_user env_user change_url ''ssh'' =
    Inr (''ssh://''
         @ user_prefix_of (if truthy session_user then get_or session_user [] else get_or env_user [])
         @ str_opt (url_hostname parsed) @ '':29418/''
         @ join ''/'' (drop 1 (take (list_index path_parts ''+'') path_parts)) @ ''.git'')"
proof -
  have "project_of_path be (split CHR ''/'' (strip CHR ''/'' (url_path parsed))) =
    Inr (join ''/'' (drop 1 (take (list_index path_parts ''+'') path_parts)))"
    using project_of_path_plus [OF assms(3,4,5), of be] assms(2) by simp
  with assms(1) show ?thesis
    by (simp add: get_repository_path_from_change_def clone_url_body_def)
qed

text \<open>Witness for C7, the scenario of the specification: user \<^verbatim>\<open>alice\<close> and the URL
  \<^verbatim>\<open>http://host/c/proj/sub/+/777\<close>.\<close>

theorem ssh_clone_url_from_path_witness:
  "get_repository_path_from_change example_urlparse example_backend None (Some ''alice'')
     ''http://host/c/proj/sub/+/777'' ''ssh'' = Inr ''ssh://alice@host:29418/proj/sub.git''"
proof -
  let ?parsed = "\<lparr> url_scheme = ''http'', url_hostname = Some ''host'', url_path = ''/c/proj/sub/+/777'' \<rparr>"
  let ?parts = "[''c'', ''proj'', ''sub'', ''+'', ''777'']"
  have u: "example_urlparse ''http://host/c/proj/sub/+/777'' = Inr ?parsed"
    by (simp add: example_urlparse_def)
  have p: "?parts = split CHR ''/'' (strip CHR ''/'' (url_path ?parsed))"
    by (simp add: strip_def)
  have m: "''+'' \<in> set ?parts" by simp
  have i: "1 < list_index ?parts ''+''" by simp
  have n: "Suc (list_index ?parts ''+'') < length ?parts" by simp
  from ssh_clone_url_from_path
    [where urlparse = example_urlparse and change_url = "''http://host/c/proj/sub/+/777''"
       and parsed = ?parsed and path_parts = ?parts and be = example_backend
       and session_user = None and env_user = "Some ''alice''", OF u p m i n]
  show ?thesis
    by (simp add: truthy_def get_or_def user_prefix_of_def str_opt_def)
qed

text \<open>
  Counterexample to C7 as stated. In \<^verbatim>\<open>http://host/c/proj/+\<close> the \<^verbatim>\<open>+\<close> segment stands at
  position 2 and is the last one: reading the change id after it fails, and the tool raises.
  In \<^verbatim>\<open>http://host/c/+/x/+/777\<close> a \<^verbatim>\<open>+\<close> segment stands at position 3, but the first
  one stands at position 1: the project comes from the change lookup, not from the path.
\<close>

theorem ssh_clone_url_counterexample:
  "split CHR ''/'' (strip CHR ''/'' ''/c/proj/+'') = [''c'', ''proj'', ''+'']
   \<and> get_repository_path_from_change example_urlparse example_backend None (Some ''alice'')
       ''http://host/c/proj/+'' ''ssh''
     = Inl (ValueError ''Failed to extract repository path: list index out of range'')
   \<and> split CHR ''/'' (strip CHR ''/'' ''/c/+/x/+/777'') = [''c'', ''+'', ''x'', ''+'', ''777'']
   \<and> get_repository_path_from_change example_urlparse backend_777 None (Some ''alice'')
       ''http://host/c/+/x/+/777'' ''ssh''
     = Inr ''ssh://alice@host:29418/proj.git''"
proof -
  have "split CHR ''/'' (strip CHR ''/'' ''/c/proj/+'') = [''c'', ''proj'', ''+'']"
    by code_simp
  moreover have "get_repository_path_from_change example_urlparse example_backend None (Some ''alice'')
       ''http://host/c/proj/+'' ''ssh''
     = Inl (ValueError ''Failed to extract repository path: list index out of range'')"
    by code_simp
  moreover have "split CHR ''/'' (strip CHR ''/'' ''/c/+/x/+/777'') = [''c'', ''+'', ''x'', ''+'', ''777'']"
    by code_simp
  moreover have "get_repository_path_from_change example_urlparse backend_777 None (Some ''alice'')
       ''http://host/c/+/x/+/777'' ''ssh''
     = Inr ''ssh://alice@host:29418/proj.git''"
    by code_simp
  ultimately show ?thesis by blast
qed

text \<open>
  Claim C8. When the path has no \<^verbatim>\<open>+\<close> segment, or its first \<^verbatim>\<open>+\<close> segment stands at a
  position of at most 1, the tool takes the last path segment as change id and calls
  \<^verbatim>\<open>fetch_gerrit_change\<close> on it without a patchset number: the clone URL is built from the
  project that call returns, and the tool fails only when that call fails.
\<close>

theorem clone_url_falls_back_to_change_lookup:
  assumes "urlparse change_url = Inr parsed"
    and "path_parts = split CHR ''/'' (strip CHR ''/'' (url_path parsed))"
    and "''+'' \<notin> set path_parts \<or> list_index path_parts ''+'' \<le> 1"
  shows "get_repository_path_from_change urlparse be session_user env_user change_url clone_url_type =
    (case fetch_gerrit_change be (last path_parts) None of
       Inl e \<Rightarrow> Inl (ValueError (''Failed to extract repository path: '' @ exn_str e))
     | Inr change_info \<Rightarrow>
         (let user = (if truthy session_user then get_or session_user [] else get_or env_user [])
          in if clone_url_type = ''ssh''
             then Inr (''ssh://'' @ user_prefix_of user @ str_opt (url_hostname parsed) @ '':29418/''
                       @ cr_project change_info @ ''.git'')
             else Inr (url_scheme parsed @ ''://'' @ user_prefix_of user @ str_opt (url_hostname parsed)
                       @ ''/a/'' @ cr_project change_info @ ''.git'')))"
proof -
  from assms(2) have ne: "path_parts \<noteq> []" by (simp add: split_nonempty)
  have "project_of_path be (split CHR ''/'' (strip CHR ''/'' (url_path parsed))) =
    (case fetch_gerrit_change be (last path_parts) None of
       Inl e \<Rightarrow> Inl e
     | Inr change_info \<Rightarrow> Inr (cr_project change_info))"
    using project_of_path_lookup [OF ne assms(3), of be] assms(2) by simp
  with assms(1) show ?thesis
    by (simp add: get_repository_path_from_change_def clone_url_body_def Let_def split: sum.splits)
qed

text \<open>Witness for C8, the scenario of the specification: for \<^verbatim>\<open>http://host/c/+/777\<close> the
  change looked up is 777. A backend that knows change 777 gives the clone URL of its
  project; a backend that does not know it gives the failure of the lookup.\<close>

theorem clone_url_falls_back_to_change_lookup_witness:
  "last (split CHR ''/'' (strip CHR ''/'' ''/c/+/777'')) = ''777''
   \<and> fetch_gerrit_change backend_777 ''777'' None = Inr change_result_777
   \<and> get_repository_path_from_change example_urlparse backend_777 None (Some ''alice'')
       ''http://host/c/+/777'' ''http'' = Inr ''http://alice@host/a/proj.git''
   \<and> get_repository_path_from_change example_urlparse example_backend None (Some ''alice'')
       ''http://host/c/+/777'' ''http''
     = Inl (ValueError (''Failed to extract repository path: ''
          @ ''Failed to make Gerrit REST API request: 404 Client Error: Not Found for url: ''))"
proof -
  let ?parsed = "\<lparr> url_scheme = ''http'', url_hostname = Some ''host'', url_path = ''/c/+/777'' \<rparr>"
  let ?parts = "[''c'', ''+'', ''777'']"
  have u: "example_urlparse ''http://host/c/+/777'' = Inr ?parsed"
    by (simp add: example_urlparse_def)
  have p: "?parts = split CHR ''/'' (strip CHR ''/'' (url_path ?parsed))"
    by (simp add: strip_def)
  have i: "''+'' \<notin> set ?parts \<or> list_index ?parts ''+'' \<le> 1" by simp
  have l: "last (split CHR ''/'' (strip CHR ''/'' ''/c/+/777'')) = ''777''"
    by (simp add: strip_def)
  have f: "fetch_gerrit_change backend_777 ''777'' None = Inr change_result_777"
    by code_simp
  have g: "fetch_gerrit_change example_backend ''777'' None =
      Inl (request_failed ''404 Client Error: Not Found for url: '')"
    by code_simp
  note t = clone_url_falls_back_to_change_lookup
    [where urlparse = example_urlparse and change_url = "''http://host/c/+/777''"
       and parsed = ?parsed and path_parts = ?parts
       and session_user = None and env_user = "Some ''alice''" and clone_url_type = "''http''",
     OF u p i]
  have c: "cr_project change_result_777 = ''proj''"
    by (simp add: change_result_777_def)
  from t [of backend_777]
  have a: "get_repository_path_from_change example_urlparse backend_777 None (Some ''alice'')
       ''http://host/c/+/777'' ''http'' = Inr ''http://alice@host/a/proj.git''"
    by (simp add: f c truthy_def get_or_def user_prefix_of_def str_opt_def Let_def)
  from t [of example_backend]
  have b: "get_repository_path_from_change example_urlparse example_backend None (Some ''alice'')
       ''http://host/c/+/777'' ''http''
     = Inl (ValueError (''Failed to extract repository path: ''
          @ ''Failed to make Gerrit REST API request: 404 Client Error: Not Found for url: ''))"
    by (simp add: g request_failed_def)
  from l f a b show ?thesis by blast
qed

section \<open>Properties of the empty patchset number\<close>

lemma process_files_error:
  "process_files be change_id target_revision acc xs = Inl e \<Longrightarrow>
   \<exists>endpoint. request_diff be endpoint = Inl e"
proof (induction xs arbitrary: acc)
  case Nil
  then show ?case by simp
next
  case (Cons x xs)
  obtain file_path file_info where x: "x = (file_path, file_info)" by (cases x)
  show ?case
  proof (cases "file_path = commit_msg")
    case True
    with Cons x show ?thesis by auto
  next
    case False
    show ?thesis
    proof (cases "request_diff be (diff_endpoint change_id target_revision file_path)")
      case (Inl e')
      with Cons.prems x False have "e' = e" by simp
      with Inl show ?thesis by blast
    next
      case (Inr diff_info)
      with Cons.prems x False show ?thesis
        by (auto dest: Cons.IH)
    qed
  qed
qed

lemma resolve_revision_empty_cases:
  "resolve_revision D (Some []) = Inr r \<Longrightarrow>
     ci_current_revision D = Some r \<and> r \<noteq> [] \<and> has_key (ci_revisions D) r"
  "resolve_revision D (Some []) = Inl e \<Longrightarrow> e = revision_info_not_found"
  by (auto simp: resolve_revision_def target_revision_of_empty split: option.splits if_splits)

lemma fetch_gerrit_change_empty_revision:
  assumes "request_change be (change_endpoint change_id) = Inr (Some D)"
    and "fetch_gerrit_change be change_id (Some []) = Inr r"
  shows "ci_current_revision D = Some (cr_revision r)"
proof -
  from assms obtain t where "resolve_revision D (Some []) = Inr t" and "cr_revision r = t"
    by (auto simp: fetch_gerrit_change_def split: sum.splits if_splits)
  then show ?thesis
    using resolve_revision_empty_cases(1) [of D t] by simp
qed

lemma fetch_gerrit_change_empty_error:
  assumes "fetch_gerrit_change be change_id (Some []) = Inl e"
  shows "(\<exists>endpoint. request_change be endpoint = Inl e)
    \<or> (\<exists>endpoint. request_diff be endpoint = Inl e)
    \<or> e = ValueError (''Change '' @ change_id @ '' not found'')
    \<or> e = ValueError ''Project information not found in change''
    \<or> e = revision_info_not_found
    \<or> (\<exists>k. e = KeyError k)"
proof (cases "request_change be (change_endpoint change_id)")
  case (Inl e')
  with assms have "e' = e" by (simp add: fetch_gerrit_change_def)
  with Inl show ?thesis by blast
next
  case (Inr c)
  show ?thesis
  proof (cases c)
    case None
    with Inr assms show ?thesis by (simp add: fetch_gerrit_change_def)
  next
    case (Some D)
    show ?thesis
    proof (cases "truthy (ci_project D)")
      case False
      with Inr Some assms show ?thesis by (simp add: fetch_gerrit_change_def)
    next
      case True
      show ?thesis
      proof (cases "resolve_revision D (Some [])")
        case (Inl e')
        with Inr Some True assms have "e' = e" by (simp add: fetch_gerrit_change_def)
        with Inl show ?thesis using resolve_revision_empty_cases(2) [of D e'] by simp
      next
        case res: (Inr t)
        show ?thesis
        proof (cases "getitem (ci_revisions D) t")
          case (Inl e')
          with Inr Some True res assms have "e' = e" by (simp add: fetch_gerrit_change_def)
          with Inl show ?thesis by (auto simp: getitem_def split: option.splits)
        next
          case gi: (Inr ri)
          with Inr Some True res assms
          have "process_files be change_id t [] (ri_files ri) = Inl e"
            by (simp add: fetch_gerrit_change_def split: sum.splits)
          from process_files_error [OF this] show ?thesis by blast
        qed
      qed
    qed
  qed
qed

lemma fetch_gerrit_change_empty_success:
  assumes "request_change be (change_endpoint change_id) = Inr (Some D)"
    and "ci_project D = Some project" and "project \<noteq> []"
    and "ci_current_revision D = Some c" and "c \<noteq> []"
    and "map_of (ci_revisions D) c = Some revision_info"
    and "process_files be change_id c [] (ri_files revision_info) = Inr files"
  shows "fetch_gerrit_change be change_id (Some []) =
    Inr \<lparr> cr_change_info = D, cr_project = project, cr_revision = c,
          cr_patchset = revision_info, cr_files = files \<rparr>"
proof -
  from assms(6) have "has_key (ci_revisions D) c"
    by (auto simp: has_key_def dest!: map_of_SomeD intro: rev_image_eqI)
  with assms(4,5) have "resolve_revision D (Some []) = Inr c"
    by (simp add: resolve_revision_def target_revision_of_empty)
  with assms show ?thesis
    by (simp add: fetch_gerrit_change_def truthy_def getitem_def get_or_def)
qed

lemma make_gerrit_rest_request_not_patchset_not_found:
  "make_gerrit_rest_request http_get json_loads gerrit_ctx endpoint
     \<noteq> Inl (patchset_not_found pn available)"
  by (auto simp: make_gerrit_rest_request_def parse_content_def Let_def patchset_not_found_def
      no_response_attribute_def authentication_failed_def request_failed_def parse_failed_def
      split: sum.splits option.splits)

lemma fetch_gerrit_change_empty_never_patchset_not_found:
  assumes "\<forall>endpoint. request_change be endpoint \<noteq> Inl (patchset_not_found pn available)"
    and "\<forall>endpoint. request_diff be endpoint \<noteq> Inl (patchset_not_found pn available)"
  shows "fetch_gerrit_change be change_id (Some []) \<noteq> Inl (patchset_not_found pn available)"
proof
  assume "fetch_gerrit_change be change_id (Some []) = Inl (patchset_not_found pn available)"
  from fetch_gerrit_change_empty_error [OF this] assms
  show False
    by (auto simp: patchset_not_found_def revision_info_not_found_def)
qed

text \<open>
  Claim C10. With the empty string as patchset number, \<^verbatim>\<open>fetch_gerrit_change\<close> behaves
  as without a patchset number. The two calls return the same. Whenever the call with the
  empty string succeeds, the revision it returns is the \<^verbatim>\<open>current_revision\<close> of the change
  detail the backend gave; and it succeeds, with that revision, its entry and its files,
  whenever the change detail has a project, its \<^verbatim>\<open>current_revision\<close> is a non-empty key of
  the revisions and every diff request succeeds. The call never raises the
  patchset-not-found error: not when no request to the backend fails with that error, and in
  particular not when the requests are made by \<^verbatim>\<open>make_gerrit_rest_request\<close>, which cannot
  fail with it. The same holds
  of the resolution alone: the revision chosen is \<^verbatim>\<open>current_revision\<close> and the sequence
  numbers are not scanned.
\<close>

theorem empty_patchset_number_is_absent:
  "fetch_gerrit_change be change_id (Some []) = fetch_gerrit_change be change_id None
   \<and> (request_change be (change_endpoint change_id) = Inr (Some D') \<and>
        fetch_gerrit_change be change_id (Some []) = Inr r
        \<longrightarrow> ci_current_revision D' = Some (cr_revision r))
   \<and> (request_change be (change_endpoint change_id) = Inr (Some D') \<and>
        ci_project D' = Some project \<and> project \<noteq> [] \<and>
        ci_current_revision D' = Some c \<and> c \<noteq> [] \<and>
        map_of (ci_revisions D') c = Some revision_info \<and>
        process_files be change_id c [] (ri_files revision_info) = Inr files
        \<longrightarrow> fetch_gerrit_change be change_id (Some []) =
              Inr \<lparr> cr_change_info = D', cr_project = project, cr_revision = c,
                    cr_patchset = revision_info, cr_files = files \<rparr>)
   \<and> ((\<forall>endpoint. request_change be endpoint \<noteq> Inl (patchset_not_found pn available)) \<and>
        (\<forall>endpoint. request_diff be endpoint \<noteq> Inl (patchset_not_found pn available))
        \<longrightarrow> fetch_gerrit_change be change_id (Some []) \<noteq> Inl (patchset_not_found pn available))
   \<and> (request_change be = make_gerrit_rest_request http_get loads_change gerrit_ctx \<and>
        request_diff be = make_gerrit_rest_request http_get loads_diff gerrit_ctx
        \<longrightarrow> fetch_gerrit_change be change_id (Some []) \<noteq> Inl (patchset_not_found pn available))
   \<and> target_revision_of D (Some []) = Inr (ci_current_revision D)
   \<and> resolve_revision D (Some []) = resolve_revision D None
   \<and> resolve_revision D (Some []) \<noteq> Inl (patchset_not_found pn available)"
proof (intro conjI impI)
  show "fetch_gerrit_change be change_id (Some []) = fetch_gerrit_change be change_id None"
    unfolding fetch_gerrit_change_def resolve_revision_empty by (rule refl)
next
  assume "request_change be (change_endpoint change_id) = Inr (Some D') \<and>
        fetch_gerrit_change be change_id (Some []) = Inr r"
  then show "ci_current_revision D' = Some (cr_revision r)"
    using fetch_gerrit_change_empty_revision [of be change_id D' r] by simp
next
  assume "request_change be (change_endpoint change_id) = Inr (Some D') \<and>
        ci_project D' = Some project \<and> project \<noteq> [] \<and>
        ci_current_revision D' = Some c \<and> c \<noteq> [] \<and>
        map_of (ci_revisions D') c = Some revision_info \<and>
        process_files be change_id c [] (ri_files revision_info) = Inr files"
  then show "fetch_gerrit_change be change_id (Some []) =
              Inr \<lparr> cr_change_info = D', cr_project = project, cr_revision = c,
                    cr_patchset = revision_info, cr_files = files \<rparr>"
    using fetch_gerrit_change_empty_success [of be change_id D' project c revision_info files]
    by simp
next
  assume "(\<forall>endpoint. request_change be endpoint \<noteq> Inl (patchset_not_found pn available)) \<and>
        (\<forall>endpoint. request_diff be endpoint \<noteq> Inl (patchset_not_found pn available))"
  then show "fetch_gerrit_change be change_id (Some []) \<noteq> Inl (patchset_not_found pn available)"
    using fetch_gerrit_change_empty_never_patchset_not_found [of be pn available change_id]
    by simp
next
  assume "request_change be = make_gerrit_rest_request http_get loads_change gerrit_ctx \<and>
        request_diff be = make_gerrit_rest_request http_get loads_diff gerrit_ctx"
  then show "fetch_gerrit_change be change_id (Some []) \<noteq> Inl (patchset_not_found pn available)"
    using fetch_gerrit_change_empty_never_patchset_not_found [of be pn available change_id]
    by (simp add: make_gerrit_rest_request_not_patchset_not_found)
next
  show "target_revision_of D (Some []) = Inr (ci_current_revision D)"
    by (rule target_revision_of_empty)
  show "resolve_revision D (Some []) = resolve_revision D None"
    by (rule resolve_revision_empty)
  show "resolve_revision D (Some []) \<noteq> Inl (patchset_not_found pn available)"
    by (simp add: resolve_revision_def target_revision_of_empty revision_info_not_found_def
        patchset_not_found_def split: option.splits)
qed

text \<open>Witness for C10. On change 500 the call with the empty string returns what the call
  without a patchset number returns, at the current revision \<^verbatim>\<open>r2\<close>, and does not raise the
  patchset-not-found error, which the unmatched patchset number \<^verbatim>\<open>"9"\<close> does raise; on
  the change whose current revision is no key, the resolution fails as without a number.\<close>

theorem empty_patchset_number_is_absent_witness:
  "fetch_gerrit_change example_backend ''500'' (Some []) = Inr example_change_result
   \<and> fetch_gerrit_change example_backend ''500'' None = Inr example_change_result
   \<and> ci_current_revision example_change = Some (cr_revision example_change_result)
   \<and> fetch_gerrit_change example_backend ''500'' (Some []) \<noteq> Inl (patchset_not_found [] [''1'', ''2''])
   \<and> fetch_gerrit_change example_backend ''500'' (Some ''9'') = Inl (patchset_not_found ''9'' [''1'', ''2''])
   \<and> resolve_revision twin_change (Some []) = Inl revision_info_not_found"
proof -
  let ?ri = "\<lparr> ri_number = Some 2, ri_files = example_files \<rparr>"
  note t = empty_patchset_number_is_absent
    [where be = example_backend and change_id = "''500''" and D' = example_change
       and r = example_change_result and project = "''proj''" and c = "''r2''"
       and revision_info = ?ri and files = "cr_files example_change_result"
       and pn = "[]" and available = "[''1'', ''2'']" and D = twin_change]
  have q: "request_change example_backend (change_endpoint ''500'') = Inr (Some example_change)"
    by (simp add: example_backend_def example_request_change_def)
  have p: "ci_project example_change = Some ''proj'' \<and> ''proj'' \<noteq> []"
    by (simp add: example_change_def)
  have c: "ci_current_revision example_change = Some ''r2'' \<and> ''r2'' \<noteq> []"
    by (simp add: example_change_def)
  have m: "map_of (ci_revisions example_change) ''r2'' = Some ?ri"
    by (simp add: example_change_def)
  have f: "process_files example_backend ''500'' ''r2'' [] (ri_files ?ri)
             = Inr (cr_files example_change_result)"
    by code_simp
  have e: "\<lparr> cr_change_info = example_change, cr_project = ''proj'', cr_revision = ''r2'',
             cr_patchset = ?ri, cr_files = cr_files example_change_result \<rparr> = example_change_result"
    by (simp add: example_change_result_def)
  from t q p c m f have "fetch_gerrit_change example_backend ''500'' (Some []) =
      Inr \<lparr> cr_change_info = example_change, cr_project = ''proj'', cr_revision = ''r2'',
            cr_patchset = ?ri, cr_files = cr_files example_change_result \<rparr>"
    by blast
  with e have s: "fetch_gerrit_change example_backend ''500'' (Some []) = Inr example_change_result"
    by simp
  from t s have n: "fetch_gerrit_change example_backend ''500'' None = Inr example_change_result"
    by simp
  from t q s have k: "ci_current_revision example_change = Some (cr_revision example_change_result)"
    by blast
  have b1: "\<forall>endpoint. request_change example_backend endpoint \<noteq> Inl (patchset_not_found [] [''1'', ''2''])"
    by (simp add: example_backend_def example_request_change_def request_failed_def
        patchset_not_found_def)
  have b2: "\<forall>endpoint. request_diff example_backend endpoint \<noteq> Inl (patchset_not_found [] [''1'', ''2''])"
    by (simp add: example_backend_def)
  from t b1 b2
  have x: "fetch_gerrit_change example_backend ''500'' (Some []) \<noteq> Inl (patchset_not_found [] [''1'', ''2''])"
    by blast
  have y: "fetch_gerrit_change example_backend ''500'' (Some ''9'') = Inl (patchset_not_found ''9'' [''1'', ''2''])"
    by code_simp
  have "resolve_revision twin_change None = Inl revision_info_not_found" by code_simp
  with t have z: "resolve_revision twin_change (Some []) = Inl revision_info_not_found"
    by simp
  from s n k x y z show ?thesis by blast
qed

end
